theory Spec2Isabelle
  imports Complex_Main
begin

chapter \<open>Node validation and search handlers of n8n-mcp\<close>

text \<open>
  A shallow embedding of the handler layer of the repository: the lookup-based node
  operations and minimal validation (\<^verbatim>\<open>mcp/handlers/node-handlers.ts\<close>), the tool
  dispatcher's \<^verbatim>\<open>validate_node\<close> case, the workflow validation handler, and the two
  search implementations (\<^verbatim>\<open>mcp/handlers/search-handlers.ts\<close> and the class
  \<^verbatim>\<open>NodeSearchHandler\<close>).

  Conventions of the embedding.
  \<^item> A JavaScript string is a \<^typ>\<open>string\<close>; case folding and whitespace are modelled
    on ASCII.
  \<^item> A thrown \<^verbatim>\<open>Error\<close> is the value \<open>Inl (Error msg)\<close> of a sum type.
  \<^item> An optional field is an \<^typ>\<open>'a option\<close>; \<open>None\<close> is \<^verbatim>\<open>undefined\<close>.
  \<^item> Collaborators that live outside the modelled files (the node repository, the SQL
    store, the visibility evaluator, the regular expression engine, \<^verbatim>\<open>localeCompare\<close>)
    are parameters of the functions that call them.
\<close>

section \<open>JavaScript strings\<close>

definition lower_char :: "char \<Rightarrow> char" where
  "lower_char c =
     (if 65 \<le> (of_char c :: nat) \<and> (of_char c :: nat) \<le> 90
      then char_of ((of_char c :: nat) + 32) else c)"

definition toLowerCase :: "string \<Rightarrow> string" where
  "toLowerCase s = map lower_char s"

text \<open>The ASCII members of the class \<^verbatim>\<open>\s\<close>: space, tab, line feed, vertical tab,
  form feed, carriage return. \<^verbatim>\<open>trim\<close> strips the same class.\<close>

definition is_ws :: "char \<Rightarrow> bool" where
  "is_ws c \<longleftrightarrow> (of_char c :: nat) = 32 \<or> (9 \<le> (of_char c :: nat) \<and> (of_char c :: nat) \<le> 13)"

definition trim :: "string \<Rightarrow> string" where
  "trim s = rev (dropWhile is_ws (rev (dropWhile is_ws s)))"

fun startsWith :: "string \<Rightarrow> string \<Rightarrow> bool" where
  "startsWith s [] = True"
| "startsWith [] (p # ps) = False"
| "startsWith (c # s) (p # ps) = (c = p \<and> startsWith s ps)"

definition endsWith :: "string \<Rightarrow> string \<Rightarrow> bool" where
  "endsWith s p = startsWith (rev s) (rev p)"

fun js_includes :: "string \<Rightarrow> string \<Rightarrow> bool" where
  "js_includes [] sub = (sub = [])"
| "js_includes (c # s) sub = (startsWith (c # s) sub \<or> js_includes s sub)"

text \<open>\<^verbatim>\<open>s.replace(/^p/, '')\<close> for a literal prefix \<open>p\<close>.\<close>

definition stripPrefix :: "string \<Rightarrow> string \<Rightarrow> string" where
  "stripPrefix p s = (if startsWith s p then drop (length p) s else s)"

text \<open>\<^verbatim>\<open>s.replace(/p/g, r)\<close> for a literal, non-empty pattern \<open>p\<close>: the matches are
  found left to right and do not overlap.\<close>

function replaceAll :: "string \<Rightarrow> string \<Rightarrow> string \<Rightarrow> string" where
  "replaceAll p r s =
     (if p = [] \<or> s = [] then s
      else if startsWith s p then r @ replaceAll p r (drop (length p) s)
      else hd s # replaceAll p r (tl s))"
  by pat_completeness auto
termination
  by (relation "measure (\<lambda>(p, r, s). length s)") auto

declare replaceAll.simps [simp del]

text \<open>\<^verbatim>\<open>s.split(/\s+/)\<close>: the pieces between maximal runs of whitespace. A string
  that starts (ends) with whitespace yields a leading (trailing) empty piece, and the
  empty string yields one empty piece.\<close>

function js_split_ws :: "string \<Rightarrow> string list" where
  "js_split_ws s =
     (if dropWhile (\<lambda>c. \<not> is_ws c) s = [] then [s]
      else takeWhile (\<lambda>c. \<not> is_ws c) s #
           js_split_ws (dropWhile is_ws (dropWhile (\<lambda>c. \<not> is_ws c) s)))"
  by pat_completeness auto
termination
proof (relation "measure length")
  show "wf (measure length)" by simp
next
  fix s :: string
  assume ne: "dropWhile (\<lambda>c. \<not> is_ws c) s \<noteq> []"
  let ?r = "dropWhile (\<lambda>c. \<not> is_ws c) s"
  have "is_ws (hd ?r)" using ne hd_dropWhile [of "\<lambda>c. \<not> is_ws c" s] by simp
  then have "dropWhile is_ws ?r = dropWhile is_ws (tl ?r)"
    using ne by (cases ?r) simp_all
  moreover have "length (dropWhile is_ws (tl ?r)) \<le> length (tl ?r)"
    by (rule length_dropWhile_le)
  ultimately have "length (dropWhile is_ws ?r) \<le> length (tl ?r)"
    by (simp only:)
  also have "\<dots> < length ?r" using ne by (cases ?r) simp_all
  also have "\<dots> \<le> length s" by (rule length_dropWhile_le)
  finally show "(dropWhile is_ws ?r, s) \<in> measure length" by simp
qed

declare js_split_ws.simps [simp del]

text \<open>\<^verbatim>\<open>s.split(/\s+/).filter(w => w.length > 0)\<close>.\<close>

definition js_words :: "string \<Rightarrow> string list" where
  "js_words s = filter (\<lambda>w. w \<noteq> []) (js_split_ws s)"

text \<open>\<^verbatim>\<open>xs.join(sep)\<close>.\<close>

fun join :: "string \<Rightarrow> string list \<Rightarrow> string" where
  "join sep [] = []"
| "join sep [x] = x"
| "join sep (x # y # ys) = x @ sep @ join sep (y # ys)"

text \<open>\<^verbatim>\<open>xs.slice(0, n)\<close>: a negative \<open>n\<close> counts from the end of the array.\<close>

definition slice0 :: "'a list \<Rightarrow> int \<Rightarrow> 'a list" where
  "slice0 xs n = (if 0 \<le> n then take (nat n) xs else take (length xs - nat (- n)) xs)"

text \<open>\<^verbatim>\<open>Array.prototype.sort\<close> with a comparison function is stable; for a comparison
  function that is a total preorder the result is the one stable ordering, which
  insertion from the right computes.\<close>

fun insert_by :: "('a \<Rightarrow> 'a \<Rightarrow> 'c::linordered_idom) \<Rightarrow> 'a \<Rightarrow> 'a list \<Rightarrow> 'a list" where
  "insert_by cmp x [] = [x]"
| "insert_by cmp x (y # ys) = (if cmp x y \<le> 0 then x # y # ys else y # insert_by cmp x ys)"

definition js_sort :: "('a \<Rightarrow> 'a \<Rightarrow> 'c::linordered_idom) \<Rightarrow> 'a list \<Rightarrow> 'a list" where
  "js_sort cmp xs = foldr (insert_by cmp) xs []"

definition dquote :: char where
  "dquote = CHR 0x22"

definition squote :: char where
  "squote = CHR 0x27"

datatype error = Error string


text \<open>Decimal rendering of an array length, as string concatenation with a number gives it.\<close>

function string_of_nat :: "nat \<Rightarrow> string" where
  "string_of_nat n =
     (if n < 10 then [char_of (48 + n)] else string_of_nat (n div 10) @ [char_of (48 + n mod 10)])"
  by pat_completeness auto
termination
  by (relation "measure id") auto

declare string_of_nat.simps [simp del]

section \<open>JSON values\<close>

text \<open>Numbers are modelled as rationals (no \<^verbatim>\<open>NaN\<close>, no infinities, no rounding). An
  object is the list of its own keys with their values.\<close>

datatype json =
    JNull
  | JBool bool
  | JNum rat
  | JStr string
  | JArr "json list"
  | JObj "(string \<times> json) list"

fun truthy :: "json \<Rightarrow> bool" where
  "truthy JNull = False"
| "truthy (JBool b) = b"
| "truthy (JNum n) = (n \<noteq> 0)"
| "truthy (JStr s) = (s \<noteq> [])"
| "truthy (JArr xs) = True"
| "truthy (JObj kvs) = True"

text \<open>\<^verbatim>\<open>v || d\<close> for a possibly undefined \<open>v\<close>.\<close>

definition js_or :: "json option \<Rightarrow> json \<Rightarrow> json" where
  "js_or v d = (case v of None \<Rightarrow> d | Some j \<Rightarrow> if truthy j then j else d)"

definition js_typeof :: "json option \<Rightarrow> string" where
  "js_typeof v =
     (case v of
        None \<Rightarrow> ''undefined''
      | Some JNull \<Rightarrow> ''object''
      | Some (JBool b) \<Rightarrow> ''boolean''
      | Some (JNum n) \<Rightarrow> ''number''
      | Some (JStr s) \<Rightarrow> ''string''
      | Some (JArr xs) \<Rightarrow> ''object''
      | Some (JObj kvs) \<Rightarrow> ''object'')"

text \<open>Property access \<^verbatim>\<open>v[k]\<close> and the test \<^verbatim>\<open>k in v\<close> for the keys the handlers
  use; members inherited from a prototype are outside the model.\<close>

definition js_get :: "json \<Rightarrow> string \<Rightarrow> json option" where
  "js_get v k = (case v of JObj kvs \<Rightarrow> map_of kvs k | _ \<Rightarrow> None)"

definition js_in :: "string \<Rightarrow> json \<Rightarrow> bool" where
  "js_in k v = (case v of JObj kvs \<Rightarrow> map_of kvs k \<noteq> None | _ \<Rightarrow> False)"

text \<open>A node configuration \<^verbatim>\<open>Record<string, unknown>\<close> is a plain object, as the
  tool arguments parsed from JSON are: a finite map from its own keys to values, with
  \<^verbatim>\<open>Object.prototype\<close> as its prototype.\<close>

type_synonym config = "string \<rightharpoonup> json"

text \<open>The names of the members that every plain object inherits from
  \<^verbatim>\<open>Object.prototype\<close>.\<close>

definition objectPrototypeKeys :: "string list" where
  "objectPrototypeKeys =
     [''constructor'', ''__defineGetter__'', ''__defineSetter__'', ''hasOwnProperty'',
      ''__lookupGetter__'', ''__lookupSetter__'', ''isPrototypeOf'', ''propertyIsEnumerable'',
      ''toString'', ''valueOf'', ''__proto__'', ''toLocaleString'']"

text \<open>\<^verbatim>\<open>k in config\<close> follows the prototype chain: it holds of the own keys and of the
  inherited members.\<close>

definition js_in_config :: "string \<Rightarrow> config \<Rightarrow> bool" where
  "js_in_config k c \<longleftrightarrow> c k \<noteq> None \<or> k \<in> set objectPrototypeKeys"

section \<open>Node records and the node repository\<close>

record display_options =
  do_show :: "(string \<times> json) list option"
  do_hide :: "(string \<times> json) list option"

record node_property =
  prop_name :: string
  prop_displayName :: "string option"
  prop_required :: "bool option"
  prop_displayOptions :: "display_options option"

record node =
  nodeType :: string
  node_displayName :: string
  properties :: "node_property list option"
  version :: "json option"
  package :: "string option"
  isAITool :: "bool option"
  outputNames :: "string list option"

text \<open>The repository and the two identifier helpers (\<^verbatim>\<open>NodeTypeNormalizer\<close>,
  \<^verbatim>\<open>getNodeTypeAlternatives\<close>) are collaborators.\<close>

record repository =
  getNode :: "string \<Rightarrow> node option"
  normalizeToFullForm :: "string \<Rightarrow> string"
  getNodeTypeAlternatives :: "string \<Rightarrow> string list"

text \<open>The loop \<^verbatim>\<open>for (const alt of alternatives) { ... break; }\<close>.\<close>

fun firstFound :: "(string \<Rightarrow> node option) \<Rightarrow> string list \<Rightarrow> node option" where
  "firstFound get [] = None"
| "firstFound get (alt # alts) =
     (case get alt of Some found \<Rightarrow> Some found | None \<Rightarrow> firstFound get alts)"

text \<open>Every lookup-based handler opens with the same block: the normalized identifier, then
  the original one if normalization changed it, then the alternatives, then the throw.\<close>

definition resolveNode :: "repository \<Rightarrow> string \<Rightarrow> error + node" where
  "resolveNode repo ty =
     (let normalizedType = normalizeToFullForm repo ty;
          node1 = getNode repo normalizedType;
          node2 = (if node1 = None \<and> normalizedType \<noteq> ty then getNode repo ty else node1);
          node3 = (if node2 = None
                   then firstFound (getNode repo) (getNodeTypeAlternatives repo normalizedType)
                   else node2)
      in case node3 of
           None \<Rightarrow> Inl (Error (''Node '' @ ty @ '' not found''))
         | Some n \<Rightarrow> Inr n)"

section \<open>Minimal validation\<close>

record minimal_result =
  mr_nodeType :: string
  mr_displayName :: string
  mr_valid :: bool
  missingRequiredFields :: "string list"

text \<open>\<^verbatim>\<open>{ '@version': node.version || 1, ...(config || {}) }\<close>: the keys of \<open>config\<close> are
  spread last, so a key \<^verbatim>\<open>@version\<close> of \<open>config\<close> itself overrides the node's version.\<close>

definition configWithVersion :: "node \<Rightarrow> config option \<Rightarrow> config" where
  "configWithVersion n config =
     [''@version'' \<mapsto> js_or (version n) (JNum 1)] ++ (case config of None \<Rightarrow> Map.empty | Some c \<Rightarrow> c)"

text \<open>\<^verbatim>\<open>prop.displayName || prop.name\<close>.\<close>

definition fieldLabel :: "node_property \<Rightarrow> string" where
  "fieldLabel prop =
     (case prop_displayName prop of
        None \<Rightarrow> prop_name prop
      | Some d \<Rightarrow> if d = [] then prop_name prop else d)"

text \<open>The loop over the properties. \<open>isPropertyVisible\<close> is the visibility evaluator
  \<^verbatim>\<open>ConfigValidator.isPropertyVisible\<close>; the last test is
  \<^verbatim>\<open>!config || !(prop.name in config)\<close>.\<close>

fun missingFields ::
  "(node_property \<Rightarrow> config \<Rightarrow> bool) \<Rightarrow> config \<Rightarrow> config option \<Rightarrow> node_property list \<Rightarrow> string list"
where
  "missingFields isPropertyVisible cwv config [] = []"
| "missingFields isPropertyVisible cwv config (prop # props) =
     (if prop_required prop \<noteq> Some True then missingFields isPropertyVisible cwv config props
      else if prop_displayOptions prop \<noteq> None \<and> \<not> isPropertyVisible prop cwv
        then missingFields isPropertyVisible cwv config props
      else if (case config of None \<Rightarrow> True | Some c \<Rightarrow> \<not> js_in_config (prop_name prop) c)
        then fieldLabel prop # missingFields isPropertyVisible cwv config props
      else missingFields isPropertyVisible cwv config props)"

definition validateNodeMinimal ::
  "repository \<Rightarrow> (node_property \<Rightarrow> config \<Rightarrow> bool) \<Rightarrow> string \<Rightarrow> config option
     \<Rightarrow> error + minimal_result"
where
  "validateNodeMinimal repo isPropertyVisible ty config =
     (case resolveNode repo ty of
        Inl e \<Rightarrow> Inl e
      | Inr n \<Rightarrow>
          (let props = (case properties n of None \<Rightarrow> [] | Some ps \<Rightarrow> ps);
               missing = missingFields isPropertyVisible (configWithVersion n config) config props
           in Inr \<lparr> mr_nodeType = nodeType n,
                    mr_displayName = node_displayName n,
                    mr_valid = (length missing = 0),
                    missingRequiredFields = missing \<rparr>))"


section \<open>Configuration validation, property search and node information\<close>

record validation_finding =
  vf_type :: string
  vf_property :: string
  vf_message :: string
  vf_fix :: "string option"

text \<open>What \<^verbatim>\<open>EnhancedConfigValidator.validateWithMode\<close> returns.\<close>

record validation_result =
  vr_valid :: bool
  vr_errors :: "validation_finding list"
  vr_warnings :: "validation_finding list"
  vr_suggestions :: "string list"

record config_summary =
  hasErrors :: bool
  errorCount :: nat
  warningCount :: nat
  suggestionCount :: nat

record config_result =
  cr_nodeType :: string
  cr_workflowNodeType :: string
  cr_displayName :: string
  cr_valid :: bool
  cr_errors :: "validation_finding list"
  cr_warnings :: "validation_finding list"
  cr_suggestions :: "string list"
  cr_summary :: config_summary

text \<open>The services the handlers import: the enhanced validator, the property filter and
  the helpers of \<^verbatim>\<open>node-utils\<close> and \<^verbatim>\<open>utility-handlers\<close>. The type \<open>'t\<close> stands
  for the tool-variant guidance object.\<close>

record 't services =
  isPropertyVisible :: "node_property \<Rightarrow> config \<Rightarrow> bool"
  validateWithMode ::
    "string \<Rightarrow> config \<Rightarrow> node_property list \<Rightarrow> string \<Rightarrow> string \<Rightarrow> validation_result"
  searchProperties :: "node_property list \<Rightarrow> string \<Rightarrow> int \<Rightarrow> node_property list"
  getWorkflowNodeType :: "string option \<Rightarrow> string \<Rightarrow> string"
  getCommonAIToolUseCases :: "string \<Rightarrow> string list"
  getOutputDescriptions :: "string \<Rightarrow> string \<Rightarrow> nat \<Rightarrow> (string \<times> string) option"
  buildToolVariantGuidance :: "node \<Rightarrow> 't option"

definition validateNodeConfig ::
  "repository \<Rightarrow> 't services \<Rightarrow> string \<Rightarrow> config option \<Rightarrow> string \<Rightarrow> string
     \<Rightarrow> error + config_result"
where
  "validateNodeConfig repo sv ty config mode profile =
     (case resolveNode repo ty of
        Inl e \<Rightarrow> Inl e
      | Inr n \<Rightarrow>
          (let props = (case properties n of None \<Rightarrow> [] | Some ps \<Rightarrow> ps);
               validationResult =
                 validateWithMode sv (nodeType n) (configWithVersion n config) props mode profile
           in Inr \<lparr> cr_nodeType = nodeType n,
                    cr_workflowNodeType = getWorkflowNodeType sv (package n) (nodeType n),
                    cr_displayName = node_displayName n,
                    cr_valid = vr_valid validationResult,
                    cr_errors = vr_errors validationResult,
                    cr_warnings = vr_warnings validationResult,
                    cr_suggestions = vr_suggestions validationResult,
                    cr_summary =
                      \<lparr> hasErrors = (\<not> vr_valid validationResult),
                        errorCount = length (vr_errors validationResult),
                        warningCount = length (vr_warnings validationResult),
                        suggestionCount = length (vr_suggestions validationResult) \<rparr> \<rparr>))"




record property_search_result =
  ps_nodeType :: string
  ps_query :: string
  ps_matches :: "node_property list"
  totalMatches :: nat
  searchedIn :: string

definition searchNodeProperties ::
  "repository \<Rightarrow> 't services \<Rightarrow> string \<Rightarrow> string \<Rightarrow> int \<Rightarrow> error + property_search_result"
where
  "searchNodeProperties repo sv ty query maxResults =
     (case resolveNode repo ty of
        Inl e \<Rightarrow> Inl e
      | Inr n \<Rightarrow>
          (let allProperties = (case properties n of None \<Rightarrow> [] | Some ps \<Rightarrow> ps);
               matches = searchProperties sv allProperties query maxResults
           in Inr \<lparr> ps_nodeType = nodeType n,
                    ps_query = query,
                    ps_matches = matches,
                    totalMatches = length matches,
                    searchedIn = string_of_nat (length allProperties) @ '' properties'' \<rparr>))"

record ai_tool_capabilities =
  canBeUsedAsTool :: bool
  hasUsableAsToolProperty :: bool
  requiresEnvironmentVariable :: bool
  toolConnectionType :: string
  commonToolUseCases :: "string list"
  environmentRequirement :: "string option"

record output_info =
  oi_index :: nat
  oi_name :: string
  oi_description :: string
  oi_connectionGuidance :: string

record 't node_info =
  ni_node :: node
  ni_workflowNodeType :: string
  aiToolCapabilities :: ai_tool_capabilities
  outputs :: "output_info list option"
  toolVariantInfo :: "'t option"

definition describeOutput :: "'t services \<Rightarrow> node \<Rightarrow> nat \<times> string \<Rightarrow> output_info" where
  "describeOutput sv n ix =
     (let descriptions = getOutputDescriptions sv (nodeType n) (snd ix) (fst ix)
      in \<lparr> oi_index = fst ix,
           oi_name = snd ix,
           oi_description = (case descriptions of None \<Rightarrow> [] | Some d \<Rightarrow> fst d),
           oi_connectionGuidance = (case descriptions of None \<Rightarrow> [] | Some d \<Rightarrow> snd d) \<rparr>)"

definition getNodeInfo :: "repository \<Rightarrow> 't services \<Rightarrow> string \<Rightarrow> error + 't node_info" where
  "getNodeInfo repo sv ty =
     (case resolveNode repo ty of
        Inl e \<Rightarrow> Inl e
      | Inr n \<Rightarrow>
          (let aiTool = (case isAITool n of None \<Rightarrow> False | Some b \<Rightarrow> b);
               caps =
                 \<lparr> canBeUsedAsTool = True,
                   hasUsableAsToolProperty = aiTool,
                   requiresEnvironmentVariable = (\<not> aiTool \<and> package n \<noteq> Some ''n8n-nodes-base''),
                   toolConnectionType = ''ai_tool'',
                   commonToolUseCases = getCommonAIToolUseCases sv (nodeType n),
                   environmentRequirement =
                     (if package n \<noteq> None \<and> package n \<noteq> Some [] \<and> package n \<noteq> Some ''n8n-nodes-base''
                      then Some ''N8N_COMMUNITY_PACKAGES_ALLOW_TOOL_USAGE=true'' else None) \<rparr>;
               outs =
                 (case outputNames n of
                    None \<Rightarrow> None
                  | Some names \<Rightarrow>
                      if length names > 0
                      then Some (map (describeOutput sv n) (zip [0..<length names] names))
                      else None)
           in Inr \<lparr> ni_node = n,
                    ni_workflowNodeType =
                      getWorkflowNodeType sv
                        (Some (case package n of None \<Rightarrow> ''n8n-nodes-base'' | Some p \<Rightarrow> p)) (nodeType n),
                    aiToolCapabilities = caps,
                    outputs = outs,
                    toolVariantInfo = buildToolVariantGuidance sv n \<rparr>))"

section \<open>The tool dispatcher: \<^verbatim>\<open>validate_node\<close>\<close>

text \<open>The two literal results for a configuration that is not an object.\<close>

record invalid_minimal =
  im_nodeType :: json
  im_displayName :: string
  im_valid :: bool
  im_missingRequiredFields :: "string list"

record invalid_config =
  ic_nodeType :: json
  ic_workflowNodeType :: json
  ic_displayName :: string
  ic_valid :: bool
  ic_errors :: "validation_finding list"
  ic_warnings :: "validation_finding list"
  ic_suggestions :: "string list"
  ic_summary :: config_summary

datatype 'r tool_result =
    InvalidMinimal invalid_minimal
  | InvalidConfig invalid_config
  | Handled 'r

text \<open>The dispatcher's surroundings: the optional parameter-validation callback (it
  throws or returns), the two private methods the \<^verbatim>\<open>validate_node\<close> case delegates to
  (each awaits initialization and then calls the handler), and the other cases of the
  \<^verbatim>\<open>switch\<close>.\<close>

record 'r tool_env =
  validateToolParamsCallback :: "(string \<Rightarrow> json \<Rightarrow> string list \<Rightarrow> error option) option"
  callValidateNodeMinimal :: "json option \<Rightarrow> json option \<Rightarrow> error + 'r"
  callValidateNodeConfig :: "json option \<Rightarrow> json option \<Rightarrow> string \<Rightarrow> json option \<Rightarrow> error + 'r"
  otherTools :: "string \<Rightarrow> json \<Rightarrow> error + 'r"

fun checkRequired :: "string \<Rightarrow> json \<Rightarrow> string list \<Rightarrow> error option" where
  "checkRequired name args [] = None"
| "checkRequired name args (param # required) =
     (if \<not> js_in param args \<or> js_get args param = None \<or> js_get args param = Some JNull
      then Some (Error (''Missing required parameter '' @ [squote] @ param @ [squote] @
                        '' for tool '' @ [squote] @ name @ [squote]))
      else checkRequired name args required)"

definition validateToolParams :: "'r tool_env \<Rightarrow> string \<Rightarrow> json \<Rightarrow> string list \<Rightarrow> error option" where
  "validateToolParams env name args required =
     (case (case validateToolParamsCallback env of None \<Rightarrow> None | Some cb \<Rightarrow> cb name args required) of
        Some e \<Rightarrow> Some e
      | None \<Rightarrow> checkRequired name args required)"

text \<open>The marker bytes that open the recovery hints, as the source file stores them.\<close>

definition recovery_mark :: string where
  "recovery_mark = [CHR 0xC3, CHR 0xB0, CHR 0xC5, CHR 0xB8, CHR 0xE2, CHR 0x80, CHR 0x9D, CHR 0xC2, CHR 0xA7]"

definition bullet_mark :: string where
  "bullet_mark = [CHR 0xC3, CHR 0xA2, CHR 0xE2, CHR 0x82, CHR 0xAC, CHR 0xC2, CHR 0xA2]"

definition invalidMinimal :: "json \<Rightarrow> invalid_minimal" where
  "invalidMinimal args =
     \<lparr> im_nodeType = js_or (js_get args ''nodeType'') (JStr ''unknown''),
       im_displayName = ''Unknown Node'',
       im_valid = False,
       im_missingRequiredFields =
         [''Invalid config format - expected object'',
          recovery_mark @ '' RECOVERY: Use format { '' @ [dquote] @ ''resource'' @ [dquote] @ '': '' @
            [dquote] @ ''...'' @ [dquote] @ '', '' @ [dquote] @ ''operation'' @ [dquote] @ '': '' @
            [dquote] @ ''...'' @ [dquote] @ '' } or {} for empty config''] \<rparr>"

definition invalidConfig :: "json \<Rightarrow> invalid_config" where
  "invalidConfig args =
     \<lparr> ic_nodeType = js_or (js_get args ''nodeType'') (JStr ''unknown''),
       ic_workflowNodeType = js_or (js_get args ''nodeType'') (JStr ''unknown''),
       ic_displayName = ''Unknown Node'',
       ic_valid = False,
       ic_errors =
         [\<lparr> vf_type = ''config'', vf_property = ''config'',
            vf_message = ''Invalid config format - expected object'',
            vf_fix = Some ''Provide config as an object with node properties'' \<rparr>],
       ic_warnings = [],
       ic_suggestions =
         [recovery_mark @ '' RECOVERY: Invalid config detected. Fix with:'',
          ''   '' @ bullet_mark @ '' Ensure config is an object: { '' @ [dquote] @ ''resource'' @ [dquote] @
            '': '' @ [dquote] @ ''...'' @ [dquote] @ '', '' @ [dquote] @ ''operation'' @ [dquote] @ '': '' @
            [dquote] @ ''...'' @ [dquote] @ '' }'',
          ''   '' @ bullet_mark @ '' Use get_node to see required fields for this node type'',
          ''   '' @ bullet_mark @ '' Check if the node type is correct before configuring it''],
       ic_summary = \<lparr> hasErrors = True, errorCount = 1, warningCount = 0, suggestionCount = 3 \<rparr> \<rparr>"

definition executeTool :: "'r tool_env \<Rightarrow> string \<Rightarrow> json option \<Rightarrow> error + 'r tool_result" where
  "executeTool env name args0 =
     (let args = (case args0 of None \<Rightarrow> JObj [] | Some a \<Rightarrow> if truthy a then a else JObj [])
      in if js_typeof (Some args) \<noteq> ''object'' \<or> args = JNull
         then Inl (Error (''Invalid arguments for tool '' @ name @ '': expected object, got '' @
                          js_typeof (Some args)))
         else if name = ''validate_node'' then
           (case validateToolParams env name args [''nodeType'', ''config''] of
              Some e \<Rightarrow> Inl e
            | None \<Rightarrow>
                if js_typeof (js_get args ''config'') \<noteq> ''object'' \<or> js_get args ''config'' = Some JNull
                then (if js_or (js_get args ''mode'') (JStr ''full'') = JStr ''minimal''
                      then Inr (InvalidMinimal (invalidMinimal args))
                      else Inr (InvalidConfig (invalidConfig args)))
                else if js_or (js_get args ''mode'') (JStr ''full'') = JStr ''minimal''
                then map_sum id Handled
                       (callValidateNodeMinimal env (js_get args ''nodeType'') (js_get args ''config''))
                else map_sum id Handled
                       (callValidateNodeConfig env (js_get args ''nodeType'') (js_get args ''config'')
                          ''operation'' (js_get args ''profile'')))
         else map_sum id Handled (otherTools env name args))"

section \<open>Workflow validation handler\<close>





















section \<open>Edit distance\<close>

text \<open>\<^verbatim>\<open>getEditDistance\<close> fills a two-dimensional array \<open>dp\<close> of \<open>m + 1\<close> rows and
  \<open>n + 1\<close> columns: first column, first row, then the inner cells row by row.\<close>

type_synonym table = "nat list list"

definition get2 :: "table \<Rightarrow> nat \<Rightarrow> nat \<Rightarrow> nat" where
  "get2 dp i j = dp ! i ! j"

definition set2 :: "table \<Rightarrow> nat \<Rightarrow> nat \<Rightarrow> nat \<Rightarrow> table" where
  "set2 dp i j v = dp[i := (dp ! i)[j := v]]"

definition cell :: "'a list \<Rightarrow> 'a list \<Rightarrow> table \<Rightarrow> nat \<Rightarrow> nat \<Rightarrow> nat" where
  "cell s1 s2 dp i j =
     (if s1 ! (i - 1) = s2 ! (j - 1) then get2 dp (i - 1) (j - 1)
      else 1 + min (get2 dp (i - 1) j) (min (get2 dp i (j - 1)) (get2 dp (i - 1) (j - 1))))"

definition fill_row :: "'a list \<Rightarrow> 'a list \<Rightarrow> nat \<Rightarrow> table \<Rightarrow> table" where
  "fill_row s1 s2 i dp = fold (\<lambda>j d. set2 d i j (cell s1 s2 d i j)) [1..<length s2 + 1] dp"

definition getEditDistance :: "'a list \<Rightarrow> 'a list \<Rightarrow> nat" where
  "getEditDistance s1 s2 =
     (let m = length s1; n = length s2;
          dp0 = replicate (m + 1) (replicate (n + 1) 0);
          dp1 = fold (\<lambda>i d. set2 d i 0 i) [0..<m + 1] dp0;
          dp2 = fold (\<lambda>j d. set2 d 0 j j) [0..<n + 1] dp1;
          dp3 = fold (fill_row s1 s2) [1..<m + 1] dp2
      in get2 dp3 m n)"

text \<open>The specification side: one edit inserts, deletes or substitutes a single character
  at any position; \<open>edits n s t\<close> says that \<open>n\<close> edits transform \<open>s\<close> into \<open>t\<close>.\<close>

inductive edit_step :: "'a list \<Rightarrow> 'a list \<Rightarrow> bool" where
  ins: "edit_step (xs @ ys) (xs @ a # ys)"
| del: "edit_step (xs @ a # ys) (xs @ ys)"
| sub: "a \<noteq> b \<Longrightarrow> edit_step (xs @ a # ys) (xs @ b # ys)"

inductive edits :: "nat \<Rightarrow> 'a list \<Rightarrow> 'a list \<Rightarrow> bool" where
  finished: "edits 0 s s"
| step: "edit_step s u \<Longrightarrow> edits n u t \<Longrightarrow> edits (Suc n) s t"

text \<open>The textbook recurrence, used to connect the table with the edit sequences.\<close>

fun lev :: "'a list \<Rightarrow> 'a list \<Rightarrow> nat" where
  "lev [] ys = length ys"
| "lev (x # xs) [] = Suc (length xs)"
| "lev (x # xs) (y # ys) =
     min (Suc (lev xs (y # ys))) (min (Suc (lev (x # xs) ys)) (lev xs ys + (if x = y then 0 else 1)))"

section \<open>Node rows and the search environment\<close>

record NodeRow =
  node_type :: string
  package_name :: string
  display_name :: string
  description :: "string option"
  category :: "string option"
  is_community :: "int option"
  is_verified :: "int option"
  author_name :: "string option"
  npm_downloads :: "int option"

record example_row =
  parameters_json :: string
  template_name :: string
  template_views :: int

record example =
  configuration :: json
  template :: string
  views :: int

record search_options =
  opt_mode :: "string option"
  includeExamples :: "bool option"
  source :: "string option"

text \<open>The environment of a search: the prepared statements of the SQL store as functions
  of their parameters, and the library functions the ranking relies on.
  \<^item> \<open>ftsSelect match cleaned filter limit\<close> is the \<^verbatim>\<open>nodes_fts MATCH ?\<close> statement; it
    returns rows with their index rank or throws.
  \<^item> \<open>likePhrase\<close> and \<open>likeWords\<close> are the two \<^verbatim>\<open>LIKE\<close> statements of the substring
    strategy, \<open>likeOrdered\<close> the one of the class \<^verbatim>\<open>NodeSearchHandler\<close>.
  \<^item> \<open>allNodes\<close> is \<^verbatim>\<open>SELECT * FROM nodes\<close>.
  \<^item> \<open>regexTest q s\<close> is \<^verbatim>\<open>new RegExp(`\\b${q}\\b`, 'i').test(s)\<close> for a \<open>q\<close> that
    contains syntax characters of the pattern language; the constructor throws on a
    pattern that is not well formed.
  \<^item> \<open>localeCompare\<close> is \<^verbatim>\<open>String.prototype.localeCompare\<close>.\<close>

record search_env =
  ftsExists :: bool
  ftsSelect :: "string \<Rightarrow> string \<Rightarrow> string \<Rightarrow> int \<Rightarrow> error + (NodeRow \<times> rat) list"
  likePhrase :: "string \<Rightarrow> string \<Rightarrow> int \<Rightarrow> NodeRow list"
  likeWords :: "string list \<Rightarrow> string \<Rightarrow> int \<Rightarrow> NodeRow list"
  likeOrdered :: "string \<Rightarrow> int \<Rightarrow> NodeRow list"
  allNodes :: "NodeRow list"
  templateExamples :: "string \<Rightarrow> example_row list"
  jsonParse :: "string \<Rightarrow> json option"
  workflowNodeTypeOf :: "string \<Rightarrow> string \<Rightarrow> string"
  regexTest :: "string \<Rightarrow> string \<Rightarrow> error + bool"
  localeCompare :: "string \<Rightarrow> string \<Rightarrow> int"

section \<open>Relevance scoring\<close>

text \<open>\<^verbatim>\<open>type_lower.replace(/^nodes-base\./, '').replace(/^nodes-langchain\./, '')\<close>.\<close>

definition typeWithoutPrefix :: "string \<Rightarrow> string" where
  "typeWithoutPrefix ty =
     stripPrefix ''nodes-langchain.'' (stripPrefix ''nodes-base.'' (toLowerCase ty))"

text \<open>\<^verbatim>\<open>node.description?.toLowerCase().includes(q)\<close>.\<close>

definition descriptionIncludes :: "'a NodeRow_scheme \<Rightarrow> string \<Rightarrow> bool" where
  "descriptionIncludes n q =
     (case description n of None \<Rightarrow> False | Some d \<Rightarrow> js_includes (toLowerCase d) q)"

text \<open>The word-boundary test \<^verbatim>\<open>new RegExp(`\\b${q}\\b`, 'i').test(s)\<close>. The query is
  spliced into the pattern unescaped. A query without syntax characters of the pattern
  language (\<^verbatim>\<open>^ $ . * + ? ( ) [ ] { } |\<close> and the backslash) is a literal: the test holds when the
  query occurs in \<open>s\<close>, ignoring case, with a word boundary on either side. A word
  boundary is a position with a word character (letter, digit, underscore) on exactly
  one side. For any other query the pattern is whatever the query spells: that case
  is the parameter \<open>regexTest\<close>.\<close>

definition regexSyntaxCodes :: "nat list" where
  "regexSyntaxCodes = [94, 36, 92, 46, 42, 43, 63, 40, 41, 91, 93, 123, 125, 124]"

definition plainPattern :: "string \<Rightarrow> bool" where
  "plainPattern q \<longleftrightarrow> list_all (\<lambda>c. (of_char c :: nat) \<notin> set regexSyntaxCodes) q"

definition isWordChar :: "char \<Rightarrow> bool" where
  "isWordChar c \<longleftrightarrow>
     (97 \<le> (of_char c :: nat) \<and> (of_char c :: nat) \<le> 122)
     \<or> (65 \<le> (of_char c :: nat) \<and> (of_char c :: nat) \<le> 90)
     \<or> (48 \<le> (of_char c :: nat) \<and> (of_char c :: nat) \<le> 57)
     \<or> (of_char c :: nat) = 95"

definition wordAt :: "string \<Rightarrow> nat \<Rightarrow> bool" where
  "wordAt s p \<longleftrightarrow> p < length s \<and> isWordChar (s ! p)"

definition boundaryAt :: "string \<Rightarrow> nat \<Rightarrow> bool" where
  "boundaryAt s p \<longleftrightarrow> ((0 < p \<and> wordAt s (p - 1)) \<noteq> wordAt s p)"

definition wordBoundaryMatch :: "string \<Rightarrow> string \<Rightarrow> bool" where
  "wordBoundaryMatch q s \<longleftrightarrow>
     list_ex (\<lambda>i. toLowerCase (take (length q) (drop i s)) = toLowerCase q
                  \<and> boundaryAt s i \<and> boundaryAt s (i + length q))
       [0..<Suc (length s)]"

definition wordRegexTest :: "search_env \<Rightarrow> string \<Rightarrow> string \<Rightarrow> error + bool" where
  "wordRegexTest env q s =
     (if plainPattern q then Inr (wordBoundaryMatch q s) else regexTest env q s)"

text \<open>The tail of both scoring chains, from the word-boundary test on.\<close>

definition genericScore :: "search_env \<Rightarrow> 'a NodeRow_scheme \<Rightarrow> string \<Rightarrow> error + int" where
  "genericScore env n query_lower =
     (case wordRegexTest env query_lower (display_name n) of
        Inl e \<Rightarrow> Inl e
      | Inr True \<Rightarrow> Inr 700
      | Inr False \<Rightarrow>
          if js_includes (toLowerCase (display_name n)) query_lower then Inr 600
          else if js_includes (typeWithoutPrefix (node_type n)) query_lower then Inr 500
          else if descriptionIncludes n query_lower then Inr 400
          else Inr 0)"

text \<open>\<^verbatim>\<open>calculateRelevanceScore\<close>, the scorer of the indexed strategy.\<close>

definition calculateRelevanceScore :: "search_env \<Rightarrow> 'a NodeRow_scheme \<Rightarrow> string \<Rightarrow> error + int" where
  "calculateRelevanceScore env n query =
     (let query_lower = toLowerCase query;
          name_lower = toLowerCase (display_name n);
          type_without_prefix = typeWithoutPrefix (node_type n)
      in if name_lower = query_lower then Inr 1000
         else if type_without_prefix = query_lower then Inr 950
         else if query_lower = ''webhook'' \<and> node_type n = ''nodes-base.webhook'' then Inr 900
         else if (query_lower = ''http'' \<or> query_lower = ''http request'' \<or> query_lower = ''http call'')
                 \<and> node_type n = ''nodes-base.httpRequest'' then Inr 900
         else if js_includes query_lower ''http'' \<and> js_includes query_lower ''call''
                 \<and> node_type n = ''nodes-base.httpRequest'' then Inr 890
         else if js_includes query_lower ''http'' \<and> node_type n = ''nodes-base.httpRequest'' then Inr 850
         else if js_includes query_lower ''webhook'' \<and> node_type n = ''nodes-base.webhook'' then Inr 850
         else if startsWith name_lower query_lower then Inr 800
         else genericScore env n query_lower)"

text \<open>The scorer inside \<^verbatim>\<open>rankSearchResults\<close>, the ranking of the substring strategy:
  a base score, the bonus for queries of several words, and the final override.\<close>

definition likeBaseScore :: "search_env \<Rightarrow> NodeRow \<Rightarrow> string \<Rightarrow> error + int" where
  "likeBaseScore env n query_lower =
     (let name_lower = toLowerCase (display_name n);
          type_without_prefix = typeWithoutPrefix (node_type n)
      in if name_lower = query_lower then Inr 1000
         else if type_without_prefix = query_lower then Inr 950
         else if query_lower = ''webhook'' \<and> node_type n = ''nodes-base.webhook'' then Inr 900
         else if (query_lower = ''http'' \<or> query_lower = ''http request'' \<or> query_lower = ''http call'')
                 \<and> node_type n = ''nodes-base.httpRequest'' then Inr 900
         else if js_includes query_lower ''webhook'' \<and> node_type n = ''nodes-base.webhook'' then Inr 850
         else if js_includes query_lower ''http'' \<and> node_type n = ''nodes-base.httpRequest'' then Inr 850
         else if startsWith name_lower query_lower then Inr 800
         else genericScore env n query_lower)"

definition likeScore :: "search_env \<Rightarrow> NodeRow \<Rightarrow> string \<Rightarrow> error + int" where
  "likeScore env n query_lower =
     (case likeBaseScore env n query_lower of
        Inl e \<Rightarrow> Inl e
      | Inr score \<Rightarrow>
          (let name_lower = toLowerCase (display_name n);
               words = js_words query_lower
           in if length words > 1 then
                (let allWordsInName = list_all (\<lambda>word. js_includes name_lower word) words;
                     allWordsInDesc = list_all (\<lambda>word. descriptionIncludes n word) words;
                     score2 = (if allWordsInName then score + 200
                               else if allWordsInDesc then score + 100 else score)
                 in if query_lower = ''http call'' \<and> name_lower = ''http request''
                    then Inr 920 else Inr score2)
              else Inr score))"

text \<open>\<^verbatim>\<open>nodes.map(...)\<close> with a callback that may throw: the first throw ends the map.\<close>

fun mapM :: "('a \<Rightarrow> error + 'b) \<Rightarrow> 'a list \<Rightarrow> error + 'b list" where
  "mapM f [] = Inr []"
| "mapM f (x # xs) =
     (case f x of
        Inl e \<Rightarrow> Inl e
      | Inr y \<Rightarrow> (case mapM f xs of Inl e \<Rightarrow> Inl e | Inr ys \<Rightarrow> Inr (y # ys)))"

definition likeCompare :: "search_env \<Rightarrow> NodeRow \<times> int \<Rightarrow> NodeRow \<times> int \<Rightarrow> int" where
  "likeCompare env a b =
     (if snd a \<noteq> snd b then snd b - snd a
      else localeCompare env (display_name (fst a)) (display_name (fst b)))"

definition rankSearchResults :: "search_env \<Rightarrow> NodeRow list \<Rightarrow> string \<Rightarrow> int \<Rightarrow> error + NodeRow list" where
  "rankSearchResults env nodes query limit =
     (case mapM (\<lambda>n. map_sum id (Pair n) (likeScore env n (toLowerCase query))) nodes of
        Inl e \<Rightarrow> Inl e
      | Inr scoredNodes \<Rightarrow> Inr (map fst (slice0 (js_sort (likeCompare env) scoredNodes) limit)))"

section \<open>Fuzzy scoring\<close>

text \<open>The running minimum that starts at \<^verbatim>\<open>Infinity\<close> (\<open>None\<close>).\<close>

definition minWordDistanceOf :: "string \<Rightarrow> string list \<Rightarrow> nat option" where
  "minWordDistanceOf q nameWords =
     fold (\<lambda>word m. let distance = getEditDistance q word
                     in (case m of None \<Rightarrow> Some distance
                         | Some cur \<Rightarrow> if distance < cur then Some distance else Some cur))
          nameWords None"

text \<open>\<^verbatim>\<open>Math.min(nameDistance, typeDistance, minWordDistance)\<close>.\<close>

definition min3 :: "nat \<Rightarrow> nat \<Rightarrow> nat option \<Rightarrow> nat" where
  "min3 a b c = (case c of None \<Rightarrow> min a b | Some d \<Rightarrow> min a (min b d))"

definition matchedLenOf :: "string \<Rightarrow> string \<Rightarrow> string \<Rightarrow> string list \<Rightarrow> nat" where
  "matchedLenOf q displayNameLower nodeTypeClean nameWords =
     (let nameDistance = getEditDistance q displayNameLower;
          typeDistance = getEditDistance q nodeTypeClean;
          minWordDistance = minWordDistanceOf q nameWords;
          bestDistance = min3 nameDistance typeDistance minWordDistance
      in if minWordDistance = Some bestDistance then
           (case find (\<lambda>word. getEditDistance q word = bestDistance) nameWords of
              None \<Rightarrow> length q
            | Some word \<Rightarrow> max (length q) (length word))
         else if typeDistance = bestDistance then max (length q) (length nodeTypeClean)
         else max (length q) (length displayNameLower))"

text \<open>\<^verbatim>\<open>calculateFuzzyScore\<close>. The arithmetic is exact; the \<^verbatim>\<open>NaN\<close> that the division
  yields on an empty query and an empty name word is outside the model (the fuzzy search
  scores a query only when it has a word).\<close>

definition calculateFuzzyScore :: "'a NodeRow_scheme \<Rightarrow> string \<Rightarrow> rat" where
  "calculateFuzzyScore n query =
     (let queryLower = toLowerCase query;
          displayNameLower = toLowerCase (display_name n);
          nodeTypeClean = typeWithoutPrefix (node_type n)
      in if displayNameLower = queryLower \<or> nodeTypeClean = queryLower then 1000
         else
           (let nameDistance = getEditDistance queryLower displayNameLower;
                typeDistance = getEditDistance queryLower nodeTypeClean;
                nameWords = js_split_ws displayNameLower;
                bestDistance = min3 nameDistance typeDistance (minWordDistanceOf queryLower nameWords);
                matchedLen = matchedLenOf queryLower displayNameLower nodeTypeClean nameWords;
                similarity = 1 - rat_of_nat bestDistance / rat_of_nat matchedLen
            in if js_includes displayNameLower queryLower \<or> js_includes nodeTypeClean queryLower
               then 800 + similarity * 100
               else if startsWith displayNameLower queryLower \<or> startsWith nodeTypeClean queryLower
                       \<or> list_ex (\<lambda>w. startsWith w queryLower) nameWords
               then 700 + similarity * 100
               else if bestDistance \<le> 2
               then 500 + (2 - rat_of_nat bestDistance) * 100 + similarity * 50
               else if bestDistance \<le> 3 \<and> length queryLower \<ge> 4
               then 400 + (3 - rat_of_nat bestDistance) * 50 + similarity * 50
               else similarity * 300))"


section \<open>The search strategies of \<^verbatim>\<open>search-handlers.ts\<close>\<close>

record node_result =
  nr_nodeType :: string
  nr_workflowNodeType :: string
  nr_displayName :: string
  nr_description :: "string option"
  nr_category :: "string option"
  nr_package :: string
  relevance :: "string option"
  isCommunity :: "bool option"
  isVerified :: "bool option"
  authorName :: "string option"
  npmDownloads :: "int option"
  examples :: "example list option"

record search_response =
  sr_query :: string
  results :: "node_result list"
  totalCount :: nat
  sr_mode :: "string option"

definition baseResult :: "search_env \<Rightarrow> NodeRow \<Rightarrow> node_result" where
  "baseResult env n =
     \<lparr> nr_nodeType = node_type n,
       nr_workflowNodeType = workflowNodeTypeOf env (package_name n) (node_type n),
       nr_displayName = display_name n,
       nr_description = description n,
       nr_category = category n,
       nr_package = package_name n,
       relevance = None, isCommunity = None, isVerified = None, authorName = None,
       npmDownloads = None, examples = None \<rparr>"

definition withCommunity :: "NodeRow \<Rightarrow> node_result \<Rightarrow> node_result" where
  "withCommunity n r =
     (if is_community n = Some 1
      then r \<lparr> isCommunity := Some True,
               isVerified := Some (is_verified n = Some 1),
               authorName := (case author_name n of None \<Rightarrow> None
                              | Some a \<Rightarrow> if a = [] then None else Some a),
               npmDownloads := (case npm_downloads n of None \<Rightarrow> None
                                | Some d \<Rightarrow> if d = 0 then None else Some d) \<rparr>
      else r)"

text \<open>\<^verbatim>\<open>options?.source || 'all'\<close> and the \<^verbatim>\<open>switch\<close> on it; \<open>pre\<close> is the table
  alias (\<^verbatim>\<open>n.\<close> in the indexed statement, empty in the substring statements).\<close>

definition sourceFilterOf :: "string \<Rightarrow> search_options option \<Rightarrow> string" where
  "sourceFilterOf pre options =
     (let sourceValue =
            (case options of
               None \<Rightarrow> ''all''
             | Some opts \<Rightarrow> (case source opts of None \<Rightarrow> ''all''
                             | Some v \<Rightarrow> if v = [] then ''all'' else v))
      in if sourceValue = ''core'' then ''AND '' @ pre @ ''is_community = 0''
         else if sourceValue = ''community'' then ''AND '' @ pre @ ''is_community = 1''
         else if sourceValue = ''verified''
           then ''AND '' @ pre @ ''is_community = 1 AND '' @ pre @ ''is_verified = 1''
         else [])"

definition wantsExamples :: "search_options option \<Rightarrow> bool" where
  "wantsExamples options =
     (case options of None \<Rightarrow> False | Some opts \<Rightarrow> includeExamples opts = Some True)"

text \<open>The examples of one result; \<open>None\<close> when \<^verbatim>\<open>JSON.parse\<close> throws.\<close>

fun parseExamples :: "search_env \<Rightarrow> example_row list \<Rightarrow> example list option" where
  "parseExamples env [] = Some []"
| "parseExamples env (ex # exs) =
     (case jsonParse env (parameters_json ex) of
        None \<Rightarrow> None
      | Some c \<Rightarrow>
          (case parseExamples env exs of
             None \<Rightarrow> None
           | Some rest \<Rightarrow>
               Some (\<lparr> configuration = c, template = template_name ex, views = template_views ex \<rparr> # rest)))"

definition examplesFor :: "search_env \<Rightarrow> node_result \<Rightarrow> example list option" where
  "examplesFor env r = parseExamples env (templateExamples env (nr_workflowNodeType r))"

text \<open>The substring strategy guards each result with its own \<^verbatim>\<open>try\<close>; the indexed
  strategy guards the whole loop, so a throw leaves the remaining results as they are.\<close>

definition addExamplesEach :: "search_env \<Rightarrow> node_result list \<Rightarrow> node_result list" where
  "addExamplesEach env rs =
     map (\<lambda>r. case examplesFor env r of
                 None \<Rightarrow> r
               | Some exs \<Rightarrow> if length exs > 0 then r \<lparr> examples := Some exs \<rparr> else r) rs"

fun addExamplesUntilThrow :: "search_env \<Rightarrow> node_result list \<Rightarrow> node_result list" where
  "addExamplesUntilThrow env [] = []"
| "addExamplesUntilThrow env (r # rs) =
     (case examplesFor env r of
        None \<Rightarrow> r # rs
      | Some exs \<Rightarrow>
          (if length exs > 0 then r \<lparr> examples := Some exs \<rparr> else r) # addExamplesUntilThrow env rs)"

definition likeResponse ::
  "search_env \<Rightarrow> string \<Rightarrow> search_options option \<Rightarrow> NodeRow list \<Rightarrow> search_response" where
  "likeResponse env query options rankedNodes =
     (let rs = map (\<lambda>n. withCommunity n (baseResult env n)) rankedNodes
      in \<lparr> sr_query = query,
           results = (if wantsExamples options then addExamplesEach env rs else rs),
           totalCount = length rankedNodes,
           sr_mode = None \<rparr>)"

text \<open>\<^verbatim>\<open>query.slice(1, -1)\<close>.\<close>

definition unquote :: "string \<Rightarrow> string" where
  "unquote q = butlast (tl q)"

definition searchNodesLIKE ::
  "search_env \<Rightarrow> string \<Rightarrow> int \<Rightarrow> search_options option \<Rightarrow> error + search_response" where
  "searchNodesLIKE env query limit options =
     (let sourceFilter = sourceFilterOf [] options
      in if startsWith query [dquote] \<and> endsWith query [dquote] then
           (let exactPhrase = unquote query;
                nodes = likePhrase env (''%'' @ exactPhrase @ ''%'') sourceFilter (limit * 3)
            in case rankSearchResults env nodes exactPhrase limit of
                 Inl e \<Rightarrow> Inl e
               | Inr rankedNodes \<Rightarrow> Inr (likeResponse env query options rankedNodes))
         else
           (let words = js_words (toLowerCase query)
            in if length words = 0
               then Inr \<lparr> sr_query = query, results = [], totalCount = 0, sr_mode = None \<rparr>
               else
                 (let nodes = likeWords env (map (\<lambda>w. ''%'' @ w @ ''%'') words) sourceFilter (limit * 3)
                  in case rankSearchResults env nodes query limit of
                       Inl e \<Rightarrow> Inl e
                     | Inr rankedNodes \<Rightarrow> Inr (likeResponse env query options rankedNodes))))"

definition fuzzyFloor :: rat where
  "fuzzyFloor = 200"

definition searchNodesFuzzy :: "search_env \<Rightarrow> string \<Rightarrow> int \<Rightarrow> search_response" where
  "searchNodesFuzzy env query limit =
     (let words = js_words (toLowerCase query)
      in if length words = 0
         then \<lparr> sr_query = query, results = [], totalCount = 0, sr_mode = Some ''FUZZY'' \<rparr>
         else
           (let candidateNodes = allNodes env;
                scoredNodes = map (\<lambda>n. (n, calculateFuzzyScore n query)) candidateNodes;
                matchingNodes =
                  map fst (slice0 (js_sort (\<lambda>a b. snd b - snd a)
                                     (filter (\<lambda>item. snd item \<ge> fuzzyFloor) scoredNodes)) limit)
            in \<lparr> sr_query = query,
                 results = map (baseResult env) matchingNodes,
                 totalCount = length matchingNodes,
                 sr_mode = Some ''FUZZY'' \<rparr>))"

text \<open>The index query of \<^verbatim>\<open>searchNodesFTS\<close>.\<close>

definition buildFtsQuery :: "string \<Rightarrow> string \<Rightarrow> string" where
  "buildFtsQuery mode cleanedQuery =
     (if startsWith cleanedQuery [dquote] \<and> endsWith cleanedQuery [dquote] then cleanedQuery
      else if mode = ''AND'' then join '' AND '' (js_words cleanedQuery)
      else join '' OR '' (js_words cleanedQuery))"

definition calculateRelevance :: "NodeRow \<Rightarrow> string \<Rightarrow> string" where
  "calculateRelevance n query =
     (let lowerQuery = toLowerCase query
      in if js_includes (toLowerCase (node_type n)) lowerQuery then ''high''
         else if js_includes (toLowerCase (display_name n)) lowerQuery then ''high''
         else if descriptionIncludes n lowerQuery then ''medium''
         else ''low'')"

text \<open>The comparison function of the indexed strategy. It answers \<open>-1\<close> for a first
  argument whose name is the query whatever the second is, so it is a preorder only when
  at most one row bears the query as its name.\<close>

definition ftsCompare :: "string \<Rightarrow> (NodeRow \<times> rat) \<times> int \<Rightarrow> (NodeRow \<times> rat) \<times> int \<Rightarrow> rat" where
  "ftsCompare cleanedQuery a b =
     (if toLowerCase (display_name (fst (fst a))) = toLowerCase cleanedQuery then - 1
      else if toLowerCase (display_name (fst (fst b))) = toLowerCase cleanedQuery then 1
      else if snd a \<noteq> snd b then of_int (snd b - snd a)
      else snd (fst a) - snd (fst b))"

definition ftsResponse ::
  "search_env \<Rightarrow> string \<Rightarrow> string \<Rightarrow> string \<Rightarrow> search_options option
     \<Rightarrow> ((NodeRow \<times> rat) \<times> int) list \<Rightarrow> search_response" where
  "ftsResponse env query cleanedQuery mode options scoredNodes =
     (let rs = map (\<lambda>sn. withCommunity (fst (fst sn))
                          ((baseResult env (fst (fst sn)))
                             \<lparr> relevance := Some (calculateRelevance (fst (fst sn)) cleanedQuery) \<rparr>))
                   scoredNodes
      in \<lparr> sr_query = query,
           results = (if wantsExamples options then addExamplesUntilThrow env rs else rs),
           totalCount = length scoredNodes,
           sr_mode = (if mode \<noteq> ''OR'' then Some mode else None) \<rparr>)"

text \<open>\<^verbatim>\<open>searchNodesFTS\<close>. The \<^verbatim>\<open>try\<close> block covers the statement, the scoring and the
  sort; the \<^verbatim>\<open>return searchNodesLIKE(...)\<close> of the guard hands the promise on, so a
  failure of the substring strategy there is not caught.\<close>

definition searchNodesFTS ::
  "search_env \<Rightarrow> string \<Rightarrow> int \<Rightarrow> string \<Rightarrow> search_options option \<Rightarrow> error + search_response" where
  "searchNodesFTS env query limit mode options =
     (let cleanedQuery = trim query
      in if cleanedQuery = []
         then Inr \<lparr> sr_query = query, results = [], totalCount = 0, sr_mode = None \<rparr>
         else if mode = ''FUZZY'' then Inr (searchNodesFuzzy env cleanedQuery limit)
         else
           (let ftsQuery = buildFtsQuery mode cleanedQuery;
                sourceFilter = sourceFilterOf ''n.'' options
            in case (case ftsSelect env ftsQuery cleanedQuery sourceFilter limit of
                       Inl e \<Rightarrow> Inl e
                     | Inr nodes \<Rightarrow>
                         mapM (\<lambda>node. map_sum id (Pair node)
                                        (calculateRelevanceScore env (fst node) cleanedQuery)) nodes) of
                 Inl (Error msg) \<Rightarrow>
                   if js_includes msg ''syntax error'' \<or> js_includes msg ''fts5'' then
                     (case searchNodesLIKE env query limit options of
                        Inl e \<Rightarrow> Inl e
                      | Inr likeResult \<Rightarrow> Inr (likeResult \<lparr> sr_mode := Some mode \<rparr>))
                   else searchNodesLIKE env query limit options
               | Inr scored \<Rightarrow>
                   (let scoredNodes = js_sort (ftsCompare cleanedQuery) scored;
                        hasHttpRequest =
                          list_ex (\<lambda>sn. node_type (fst (fst sn)) = ''nodes-base.httpRequest'') scoredNodes
                    in if js_includes (toLowerCase cleanedQuery) ''http'' \<and> \<not> hasHttpRequest
                       then searchNodesLIKE env query limit options
                       else Inr (ftsResponse env query cleanedQuery mode options scoredNodes))))"

definition searchNodes ::
  "search_env \<Rightarrow> string \<Rightarrow> int \<Rightarrow> search_options option \<Rightarrow> error + search_response" where
  "searchNodes env query limit options =
     (let normalizedQuery =
            (if js_includes query ''n8n-nodes-base.'' \<or> js_includes query ''@n8n/n8n-nodes-langchain.''
             then replaceAll ''@n8n/n8n-nodes-langchain.'' ''nodes-langchain.''
                    (replaceAll ''n8n-nodes-base.'' ''nodes-base.'' query)
             else query);
          searchMode =
            (case options of
               None \<Rightarrow> ''OR''
             | Some opts \<Rightarrow> (case opt_mode opts of None \<Rightarrow> ''OR''
                             | Some m \<Rightarrow> if m = [] then ''OR'' else m))
      in if ftsExists env then searchNodesFTS env normalizedQuery limit searchMode options
         else searchNodesLIKE env normalizedQuery limit options)"

section \<open>The class \<^verbatim>\<open>NodeSearchHandler\<close>\<close>

record handler_result =
  hr_nodeType :: string
  hr_workflowNodeType :: string
  hr_displayName :: string
  hr_description :: "string option"
  hr_category :: "string option"
  hr_package :: string
  hr_relevance :: rat
  hr_isCommunity :: "bool option"
  hr_isVerified :: "bool option"
  hr_authorName :: "string option"
  hr_npmDownloads :: "int option"

record handler_response =
  hq_query :: string
  hq_results :: "handler_result list"
  hq_totalCount :: nat
  hq_mode :: "string option"
  hq_fallback :: "bool option"

text \<open>\<^verbatim>\<open>calculateRelevance\<close> of the class reads \<^verbatim>\<open>node.displayName\<close>, a key a database
  row does not have, so the name it compares is the empty string.\<close>

definition handlerRelevance :: "NodeRow \<Rightarrow> string \<Rightarrow> rat" where
  "handlerRelevance n query =
     (if query = [] then 1
      else
        (let queryLower = toLowerCase query;
             nameLower = toLowerCase [];
             typeLower = toLowerCase (node_type n);
             descLower = toLowerCase (case description n of None \<Rightarrow> [] | Some d \<Rightarrow> d);
             score = (if nameLower = queryLower then 10 else 0)
                   + (if startsWith nameLower queryLower then 5 else 0)
                   + (if js_includes nameLower queryLower then 3 else 0)
                   + (if js_includes typeLower queryLower then 2 else 0)
                   + (if js_includes descLower queryLower then 1 else 0)
         in min (score / 10) 1))"

definition handlerResult :: "search_env \<Rightarrow> string \<Rightarrow> NodeRow \<Rightarrow> handler_result" where
  "handlerResult env q n =
     \<lparr> hr_nodeType = node_type n,
       hr_workflowNodeType = workflowNodeTypeOf env (package_name n) (node_type n),
       hr_displayName = display_name n,
       hr_description = description n,
       hr_category = category n,
       hr_package = package_name n,
       hr_relevance = handlerRelevance n q,
       hr_isCommunity = None, hr_isVerified = None, hr_authorName = None, hr_npmDownloads = None \<rparr>"

definition handlerCommunity :: "NodeRow \<Rightarrow> handler_result \<Rightarrow> handler_result" where
  "handlerCommunity n r =
     (if is_community n = Some 1
      then r \<lparr> hr_isCommunity := Some True,
               hr_isVerified := Some (is_verified n = Some 1),
               hr_authorName := (case author_name n of None \<Rightarrow> None
                                 | Some a \<Rightarrow> if a = [] then None else Some a),
               hr_npmDownloads := (case npm_downloads n of None \<Rightarrow> None
                                   | Some d \<Rightarrow> if d = 0 then None else Some d) \<rparr>
      else r)"

text \<open>\<^verbatim>\<open>query.trim().replace(/[<>]/g, '')\<close>.\<close>

definition cleanQuery :: "string \<Rightarrow> string" where
  "cleanQuery query = filter (\<lambda>c. c \<noteq> CHR ''<'' \<and> c \<noteq> CHR ''>'') (trim query)"

definition handlerLikeCompare :: "string \<Rightarrow> NodeRow \<times> rat \<Rightarrow> NodeRow \<times> rat \<Rightarrow> rat" where
  "handlerLikeCompare cleanedQuery a b =
     (if toLowerCase (display_name (fst a)) = toLowerCase cleanedQuery then - 1
      else if toLowerCase (display_name (fst b)) = toLowerCase cleanedQuery then 1
      else snd b - snd a)"

definition NodeSearchHandler_searchNodesLIKE :: "search_env \<Rightarrow> string \<Rightarrow> int \<Rightarrow> handler_response" where
  "NodeSearchHandler_searchNodesLIKE env query limit =
     (let cleanedQuery = cleanQuery query;
          nodes = likeOrdered env cleanedQuery limit;
          scoredNodes = js_sort (handlerLikeCompare cleanedQuery)
                          (map (\<lambda>n. (n, handlerRelevance n cleanedQuery)) nodes)
      in \<lparr> hq_query = query,
           hq_results = map (\<lambda>sn. handlerResult env cleanedQuery (fst sn)) scoredNodes,
           hq_totalCount = length scoredNodes,
           hq_mode = None,
           hq_fallback = Some True \<rparr>)"

text \<open>The index query of the class: every piece of the split gets the prefix wildcard.\<close>

definition handlerFtsQuery :: "string \<Rightarrow> string \<Rightarrow> string" where
  "handlerFtsQuery mode ftsQuery =
     (if mode = ''AND'' then join '' AND '' (map (\<lambda>term. term @ ''*'') (js_split_ws ftsQuery))
      else join '' OR '' (map (\<lambda>term. term @ ''*'') (js_split_ws ftsQuery)))"

definition handlerFtsCompare ::
  "string \<Rightarrow> (NodeRow \<times> rat) \<times> rat \<Rightarrow> (NodeRow \<times> rat) \<times> rat \<Rightarrow> rat" where
  "handlerFtsCompare ftsQuery a b =
     (if toLowerCase (display_name (fst (fst a))) = toLowerCase ftsQuery then - 1
      else if toLowerCase (display_name (fst (fst b))) = toLowerCase ftsQuery then 1
      else if snd a \<noteq> snd b then snd b - snd a
      else snd (fst a) - snd (fst b))"

text \<open>In \<^verbatim>\<open>NodeSearchHandler.searchNodesFTS\<close> the parameter \<open>ftsQuery\<close> is the cleaned
  query of the caller and the local variable \<open>query\<close> is the index query built from it.\<close>

definition NodeSearchHandler_searchNodesFTS ::
  "search_env \<Rightarrow> string \<Rightarrow> int \<Rightarrow> string \<Rightarrow> search_options option \<Rightarrow> error + handler_response" where
  "NodeSearchHandler_searchNodesFTS env ftsQuery limit mode options =
     (let query = handlerFtsQuery mode ftsQuery;
          sourceFilter =
            (case options of
               None \<Rightarrow> []
             | Some opts \<Rightarrow>
                 if source opts = Some ''core'' then ''AND n.is_community = 0''
                 else if source opts = Some ''community'' then ''AND n.is_community = 1''
                 else if source opts = Some ''verified''
                   then ''AND n.is_community = 1 AND n.is_verified = 1''
                 else [])
      in case ftsSelect env query ftsQuery sourceFilter limit of
           Inl e \<Rightarrow> Inl e
         | Inr nodes \<Rightarrow>
             (let scoredNodes = js_sort (handlerFtsCompare ftsQuery)
                                  (map (\<lambda>node. (node, handlerRelevance (fst node) ftsQuery)) nodes);
                  hasHttpRequest =
                    list_ex (\<lambda>sn. node_type (fst (fst sn)) = ''nodes-base.httpRequest'') scoredNodes
              in if js_includes (toLowerCase ftsQuery) ''http'' \<and> \<not> hasHttpRequest
                 then Inr (NodeSearchHandler_searchNodesLIKE env query limit)
                 else Inr \<lparr> hq_query = query,
                            hq_results =
                              map (\<lambda>sn. handlerCommunity (fst (fst sn))
                                          (handlerResult env ftsQuery (fst (fst sn)))) scoredNodes,
                            hq_totalCount = length scoredNodes,
                            hq_mode = (if mode \<noteq> ''OR'' then Some mode else None),
                            hq_fallback = None \<rparr>))"

definition NodeSearchHandler_searchNodes ::
  "search_env \<Rightarrow> string \<Rightarrow> int \<Rightarrow> search_options option \<Rightarrow> error + handler_response" where
  "NodeSearchHandler_searchNodes env query limit options =
     (if trim query = [] then Inl (Error ''Search query is required'')
      else
        (let mode = (case options of
                       None \<Rightarrow> ''OR''
                     | Some opts \<Rightarrow> (case opt_mode opts of None \<Rightarrow> ''OR''
                                     | Some m \<Rightarrow> if m = [] then ''OR'' else m));
             cleanedQuery = cleanQuery query
         in case NodeSearchHandler_searchNodesFTS env cleanedQuery limit mode options of
              Inl ftsError \<Rightarrow> Inr (NodeSearchHandler_searchNodesLIKE env query limit)
            | Inr r \<Rightarrow> Inr r))"


section \<open>Reference definitions\<close>

text \<open>Modelled from the spec: \<^verbatim>\<open>ConfigValidator.isPropertyVisible\<close> is not among the
  source files. Section 4.1 of the specification: no \<open>displayOptions\<close>, always visible;
  \<open>hide\<close> is evaluated first and any satisfied condition hides the property; then
  every condition of \<open>show\<close> must hold. A condition on key \<open>k\<close> with value or list \<open>v\<close>
  holds when \<open>config[k]\<close> equals \<open>v\<close> or is a member of the list \<open>v\<close>; a missing key
  satisfies no condition. The comparator objects are not modelled.\<close>

definition conditionHolds :: "config \<Rightarrow> string \<times> json \<Rightarrow> bool" where
  "conditionHolds config kv =
     (case config (fst kv) of
        None \<Rightarrow> False
      | Some v \<Rightarrow> v = snd kv \<or> (case snd kv of JArr vs \<Rightarrow> v \<in> set vs | _ \<Rightarrow> False))"

definition specIsPropertyVisible :: "node_property \<Rightarrow> config \<Rightarrow> bool" where
  "specIsPropertyVisible prop config =
     (case prop_displayOptions prop of
        None \<Rightarrow> True
      | Some d \<Rightarrow>
          \<not> (case do_hide d of None \<Rightarrow> False | Some hs \<Rightarrow> list_ex (conditionHolds config) hs)
          \<and> (case do_show d of None \<Rightarrow> True | Some ss \<Rightarrow> list_all (conditionHolds config) ss))"

text \<open>The index query as the specification words it: a query wrapped in double quotes is
  passed on as it is; any other query is split on whitespace into terms, each term gets
  the prefix wildcard, and the terms are joined by the operator of the mode.\<close>

definition spec_index_query :: "string \<Rightarrow> string \<Rightarrow> string" where
  "spec_index_query mode q =
     (if startsWith q [dquote] \<and> endsWith q [dquote] then q
      else join (if mode = ''AND'' then '' AND '' else '' OR '')
             (map (\<lambda>term. term @ ''*'') (js_words q)))"






text \<open>Invariants of the edit-distance table: its shape, the distance of two prefixes, and
  the cells that are final once the loops have reached row \<open>i\<close>, column \<open>j\<close>.\<close>

definition wf_table :: "nat \<Rightarrow> nat \<Rightarrow> table \<Rightarrow> bool" where
  "wf_table m n dp \<longleftrightarrow> length dp = Suc m \<and> (\<forall>i. i \<le> m \<longrightarrow> length (dp ! i) = Suc n)"

definition dist_at :: "'a list \<Rightarrow> 'a list \<Rightarrow> nat \<Rightarrow> nat \<Rightarrow> nat" where
  "dist_at s1 s2 a b = lev (rev (take a s1)) (rev (take b s2))"

definition filled :: "'a list \<Rightarrow> 'a list \<Rightarrow> table \<Rightarrow> nat \<Rightarrow> nat \<Rightarrow> bool" where
  "filled s1 s2 dp i j \<longleftrightarrow> wf_table (length s1) (length s2) dp \<and>
     (\<forall>a b. a \<le> length s1 \<and> b \<le> length s2 \<and> (a = 0 \<or> b = 0 \<or> a < i \<or> (a = i \<and> b < j))
        \<longrightarrow> get2 dp a b = dist_at s1 s2 a b)"


text \<open>The condition of a lookup miss: the repository knows neither the normalized
  identifier, nor the original one, nor any alternative.\<close>

definition allLookupsMiss :: "repository \<Rightarrow> string \<Rightarrow> bool" where
  "allLookupsMiss repo ty \<longleftrightarrow>
     getNode repo (normalizeToFullForm repo ty) = None \<and> getNode repo ty = None \<and>
     list_all (\<lambda>alt. getNode repo alt = None) (getNodeTypeAlternatives repo (normalizeToFullForm repo ty))"

definition notFound :: "string \<Rightarrow> error" where
  "notFound ty = Error (''Node '' @ ty @ '' not found'')"


text \<open>The ranking of the fuzzy strategy: the candidates of the pool whose score reaches
  the floor, by descending score; \<open>sort_key\<close> is stable, so candidates of equal score
  keep the order of the pool.\<close>

definition fuzzyRanking :: "NodeRow list \<Rightarrow> string \<Rightarrow> NodeRow list" where
  "fuzzyRanking pool query =
     sort_key (\<lambda>c. - calculateFuzzyScore c query)
       (filter (\<lambda>c. fuzzyFloor \<le> calculateFuzzyScore c query) pool)"




section \<open>Example data\<close>

text \<open>A node whose one required property is shown for version 2 only, a repository
  that knows this node alone, and collaborators that answer with empty results.\<close>

definition demoProperty :: node_property where
  "demoProperty =
     \<lparr> prop_name = ''method'', prop_displayName = Some ''Method'', prop_required = Some True,
       prop_displayOptions = Some \<lparr> do_show = Some [(''@version'', JArr [JNum 2])], do_hide = None \<rparr> \<rparr>"

definition demoNode :: node where
  "demoNode =
     \<lparr> nodeType = ''nodes-base.demo'', node_displayName = ''Demo'',
       properties = Some [demoProperty], version = Some (JNum 2), package = Some ''n8n-nodes-base'',
       isAITool = None, outputNames = None \<rparr>"

text \<open>A node with one required property whose name is that of an inherited member.\<close>

definition inheritedNameNode :: node where
  "inheritedNameNode =
     \<lparr> nodeType = ''nodes-base.inherited'', node_displayName = ''Inherited'',
       properties = Some [\<lparr> prop_name = ''toString'', prop_displayName = Some ''To String'',
                            prop_required = Some True, prop_displayOptions = None \<rparr>],
       version = None, package = None, isAITool = None, outputNames = None \<rparr>"

definition inheritedNameRepository :: repository where
  "inheritedNameRepository =
     \<lparr> getNode = (\<lambda>t. if t = ''nodes-base.inherited'' then Some inheritedNameNode else None),
       normalizeToFullForm = (\<lambda>t. t),
       getNodeTypeAlternatives = (\<lambda>t. []) \<rparr>"

definition demoRepository :: repository where
  "demoRepository =
     \<lparr> getNode = (\<lambda>t. if t = ''nodes-base.demo'' then Some demoNode else None),
       normalizeToFullForm = (\<lambda>t. t),
       getNodeTypeAlternatives = (\<lambda>t. []) \<rparr>"

definition demoServices :: "unit services" where
  "demoServices =
     \<lparr> isPropertyVisible = specIsPropertyVisible,
       validateWithMode = (\<lambda>nt cf ps m p. \<lparr> vr_valid = True, vr_errors = [], vr_warnings = [], vr_suggestions = [] \<rparr>),
       searchProperties = (\<lambda>ps q k. []),
       getWorkflowNodeType = (\<lambda>p t. t),
       getCommonAIToolUseCases = (\<lambda>t. []),
       getOutputDescriptions = (\<lambda>t nm i. None),
       buildToolVariantGuidance = (\<lambda>n. None) \<rparr>"

definition demoEnv :: "unit tool_env" where
  "demoEnv =
     \<lparr> validateToolParamsCallback = None,
       callValidateNodeMinimal = (\<lambda>ty cfg. Inr ()),
       callValidateNodeConfig = (\<lambda>ty cfg m p. Inr ()),
       otherTools = (\<lambda>nm a. Inr ()) \<rparr>"



text \<open>A query wrapped in double quotes.\<close>

definition quoted :: "string \<Rightarrow> bool" where
  "quoted q \<longleftrightarrow> startsWith q [dquote] \<and> endsWith q [dquote]"

text \<open>Two rows and a store: the index returns no row, the substring statements find the
  HTTP request row for the word \<open>http\<close>.\<close>

definition httpRow :: NodeRow where
  "httpRow =
     \<lparr> node_type = ''nodes-base.httpRequest'', package_name = ''n8n-nodes-base'',
       display_name = ''HTTP Request'',
       description = Some ''Makes an HTTP request and returns the response data'',
       category = Some ''output'', is_community = Some 0, is_verified = Some 0,
       author_name = None, npm_downloads = None \<rparr>"

definition slackRow :: NodeRow where
  "slackRow =
     \<lparr> node_type = ''nodes-base.slack'', package_name = ''n8n-nodes-base'',
       display_name = ''Slack'',
       description = Some ''Consume Slack API'',
       category = Some ''output'', is_community = Some 0, is_verified = Some 0,
       author_name = None, npm_downloads = None \<rparr>"

definition demoSearchEnv :: search_env where
  "demoSearchEnv =
     \<lparr> ftsExists = True,
       ftsSelect = (\<lambda>m c f l. Inr []),
       likePhrase = (\<lambda>p f l. []),
       likeWords = (\<lambda>ps f l. if ps = [''%http%''] then [httpRow] else []),
       likeOrdered = (\<lambda>c l. if c = ''http'' then [httpRow] else []),
       allNodes = [httpRow, slackRow],
       templateExamples = (\<lambda>t. []),
       jsonParse = (\<lambda>t. None),
       workflowNodeTypeOf = (\<lambda>p t. t),
       regexTest = (\<lambda>q s. Inr False),
       localeCompare = (\<lambda>a b. int (length a) - int (length b)) \<rparr>"








text \<open>An environment whose regular-expression constructor rejects the pattern.\<close>

definition throwingEnv :: search_env where
  "throwingEnv =
     demoSearchEnv \<lparr> regexTest := (\<lambda>q s. Inl (Error ''Invalid regular expression: Nothing to repeat'')) \<rparr>"

text \<open>The options \<^verbatim>\<open>{ mode: 'FUZZY' }\<close>.\<close>

definition fuzzyOptions :: search_options where
  "fuzzyOptions = \<lparr> opt_mode = Some ''FUZZY'', includeExamples = None, source = None \<rparr>"


chapter \<open>Properties\<close>

section \<open>Edit distance\<close>

lemma lev_Nil2 [simp]: "lev xs [] = length xs"
  by (cases xs) simp_all

lemma lev_del1: "lev (a # s) t \<le> Suc (lev s t)"
  by (cases t) simp_all

lemma lev_del2: "lev s (b # t) \<le> Suc (lev s t)"
  by (cases s) simp_all

lemma lev_ins1: "lev s t \<le> Suc (lev (a # s) t)"
proof (induction t)
  case Nil
  show ?case by simp
next
  case (Cons y t)
  have "lev s (y # t) \<le> Suc (lev s t)" by (rule lev_del2)
  with Cons show ?case by (auto simp: min_def)
qed

lemma lev_ins2: "lev s t \<le> Suc (lev s (b # t))"
proof (induction s)
  case Nil
  show ?case by simp
next
  case (Cons x s)
  have "lev (x # s) t \<le> Suc (lev s t)" by (rule lev_del1)
  with Cons show ?case by (auto simp: min_def)
qed

lemma lev_same_head [simp]: "lev (x # xs) (x # ys) = lev xs ys"
  using lev_ins1 [of xs ys x] lev_ins2 [of xs ys x] lev_del1[of x xs ys] lev_del2[of xs x ys]
  by (auto simp: min_def)


lemma lev_diff_head: "x \<noteq> y \<Longrightarrow>
  lev (x # xs) (y # ys) = 1 + min (lev xs (y # ys)) (min (lev (x # xs) ys) (lev xs ys))"
  by simp

lemma lev_sub1: "lev (a # s) t \<le> Suc (lev (b # s) t)"
proof (induction t)
  case Nil
  show ?case by simp
next
  case (Cons y t)
  have "lev (a # s) (y # t) \<le> Suc (lev (a # s) t)" by (rule lev_del2)
  with Cons show ?case by (auto simp: min_def)
qed

lemma lev_prefix_step:
  assumes "\<And>t. lev s t \<le> Suc (lev u t)"
  shows "lev (xs @ s) t \<le> Suc (lev (xs @ u) t)"
proof (induction xs arbitrary: t)
  case Nil
  show ?case using assms by simp
next
  case outer: (Cons x xs)
  show ?case
  proof (induction t)
    case Nil
    from assms [of "[]"] show ?case by simp
  next
    case (Cons y t)
    have a: "lev (xs @ s) (y # t) \<le> Suc (lev (xs @ u) (y # t))" by (rule outer.IH)
    have b: "lev (xs @ s) t \<le> Suc (lev (xs @ u) t)" by (rule outer.IH)
    have c: "lev (x # xs @ s) t \<le> Suc (lev (x # xs @ u) t)" using Cons.IH by simp
    from a b c show ?case by (auto simp: min_def)
  qed
qed

lemma lev_edit_step: "edit_step s u \<Longrightarrow> lev s t \<le> Suc (lev u t)"
proof (induction rule: edit_step.induct)
  case (ins xs ys a)
  show ?case by (rule lev_prefix_step) (rule lev_ins1)
next
  case (del xs a ys)
  show ?case by (rule lev_prefix_step) (rule lev_del1)
next
  case (sub a b xs ys)
  show ?case by (rule lev_prefix_step) (rule lev_sub1)
qed

lemma lev_refl [simp]: "lev s s = 0"
  by (induction s) simp_all

lemma lev_le_edits: "edits n s t \<Longrightarrow> lev s t \<le> n"
proof (induction rule: edits.induct)
  case (finished s)
  show ?case by simp
next
  case (step s u n t)
  from lev_edit_step [OF step.hyps(1), of t] step.IH show ?case by simp
qed

lemma edit_step_Cons: "edit_step s u \<Longrightarrow> edit_step (x # s) (x # u)"
proof (induction rule: edit_step.induct)
  case (ins xs ys a)
  show ?case using edit_step.ins [of "x # xs" ys a] by simp
next
  case (del xs a ys)
  show ?case using edit_step.del [of "x # xs" a ys] by simp
next
  case (sub a b xs ys)
  then show ?case using edit_step.sub [of a b "x # xs" ys] by simp
qed

lemma edits_Cons: "edits n s t \<Longrightarrow> edits n (x # s) (x # t)"
  by (induction rule: edits.induct) (auto intro: edits.intros edit_step_Cons)

lemma edits_snoc: "edits n s u \<Longrightarrow> edit_step u t \<Longrightarrow> edits (Suc n) s t"
  by (induction rule: edits.induct) (auto intro: edits.intros)

lemma edit_step_ins_head: "edit_step s (a # s)"
  using edit_step.ins [of "[]" s a] by simp

lemma edit_step_del_head: "edit_step (a # s) s"
  using edit_step.del [of "[]" a s] by simp

lemma edit_step_sub_head: "a \<noteq> b \<Longrightarrow> edit_step (a # s) (b # s)"
  using edit_step.sub [of a b "[]" s] by simp

lemma edits_from_Nil: "edits (length ys) [] ys"
  by (induction ys) (auto intro: edits.intros edits_snoc edit_step_ins_head)

lemma edits_to_Nil: "edits (length xs) xs []"
  by (induction xs) (auto intro: edits.intros edit_step_del_head)

lemma edits_lev: "edits (lev s t) s t"
proof (induction s t rule: lev.induct)
  case (1 ys)
  show ?case using edits_from_Nil [of ys] by simp
next
  case (2 x xs)
  show ?case using edits_to_Nil [of "x # xs"] by simp
next
  case (3 x xs y ys)
  let ?d = "Suc (lev xs (y # ys))" and ?i = "Suc (lev (x # xs) ys)"
  let ?s = "lev xs ys + (if x = y then 0 else 1)"
  have d: "edits ?d (x # xs) (y # ys)"
    using "3.IH"(1) edit_step_del_head [of x xs] by (auto intro: edits.step)
  have i: "edits ?i (x # xs) (y # ys)"
    using "3.IH"(2) edit_step_ins_head [of ys y] by (auto intro: edits_snoc)
  have s: "edits ?s (x # xs) (y # ys)"
  proof (cases "x = y")
    case True
    then show ?thesis using "3.IH"(3) by (simp add: edits_Cons)
  next
    case False
    have "edits (lev xs ys) (y # xs) (y # ys)" using "3.IH"(3) by (rule edits_Cons)
    with edit_step_sub_head [OF False, of xs]
    have "edits (Suc (lev xs ys)) (x # xs) (y # ys)" by (rule edits.step)
    with False show ?thesis by simp
  qed
  have "lev (x # xs) (y # ys) = ?d \<or> lev (x # xs) (y # ys) = ?i \<or> lev (x # xs) (y # ys) = ?s"
    by (auto simp: min_def)
  with d i s show ?case by metis
qed

lemma lev_sym: "lev s t = lev t s"
  by (induction s t rule: lev.induct) (auto simp: min.commute min.left_commute)

lemma lev_eq_0_iff: "lev s t = 0 \<longleftrightarrow> s = t"
proof
  assume "lev s t = 0"
  with edits_lev [of s t] have "edits 0 s t" by simp
  then show "s = t" by cases simp
qed simp

lemma edit_step_rev: "edit_step s u \<Longrightarrow> edit_step (rev s) (rev u)"
proof (induction rule: edit_step.induct)
  case (ins xs ys a)
  show ?case using edit_step.ins [of "rev ys" "rev xs" a] by simp
next
  case (del xs a ys)
  show ?case using edit_step.del [of "rev ys" a "rev xs"] by simp
next
  case (sub a b xs ys)
  then show ?case using edit_step.sub [of a b "rev ys" "rev xs"] by simp
qed

lemma edits_rev: "edits n s t \<Longrightarrow> edits n (rev s) (rev t)"
  by (induction rule: edits.induct) (auto intro: edits.intros edit_step_rev)

lemma lev_rev: "lev (rev s) (rev t) = lev s t"
proof (rule antisym)
  show "lev (rev s) (rev t) \<le> lev s t"
    using edits_lev [of s t] by (intro lev_le_edits edits_rev)
  show "lev s t \<le> lev (rev s) (rev t)"
    using edits_rev [OF edits_lev [of "rev s" "rev t"]] by (intro lev_le_edits) simp
qed


lemma wf_table_replicate: "wf_table m n (replicate (m + 1) (replicate (n + 1) 0))"
  unfolding wf_table_def by (auto simp del: replicate.simps)

lemma wf_table_set2: "wf_table m n dp \<Longrightarrow> wf_table m n (set2 dp i j v)"
  by (cases "i < length dp") (auto simp: wf_table_def set2_def nth_list_update)

lemma get2_set2:
  "wf_table m n dp \<Longrightarrow> i \<le> m \<Longrightarrow> j \<le> n \<Longrightarrow> a \<le> m \<Longrightarrow> b \<le> n \<Longrightarrow>
   get2 (set2 dp i j v) a b = (if a = i \<and> b = j then v else get2 dp a b)"
  by (auto simp: wf_table_def set2_def get2_def nth_list_update)

lemma init_col:
  "k \<le> Suc m \<Longrightarrow> wf_table m n dp \<Longrightarrow>
   wf_table m n (fold (\<lambda>i d. set2 d i 0 i) [0..<k] dp) \<and>
   (\<forall>a. a < k \<longrightarrow> get2 (fold (\<lambda>i d. set2 d i 0 i) [0..<k] dp) a 0 = a)"
proof (induction k)
  case 0
  then show ?case by simp
next
  case (Suc k)
  then show ?case by (auto simp: wf_table_set2 get2_set2 less_Suc_eq)
qed

lemma init_row:
  "k \<le> Suc n \<Longrightarrow> wf_table m n dp \<Longrightarrow> (\<forall>a. a \<le> m \<longrightarrow> get2 dp a 0 = a) \<Longrightarrow>
   wf_table m n (fold (\<lambda>j d. set2 d 0 j j) [0..<k] dp) \<and>
   (\<forall>a. a \<le> m \<longrightarrow> get2 (fold (\<lambda>j d. set2 d 0 j j) [0..<k] dp) a 0 = a) \<and>
   (\<forall>b. b < k \<longrightarrow> get2 (fold (\<lambda>j d. set2 d 0 j j) [0..<k] dp) 0 b = b)"
proof (induction k)
  case 0
  then show ?case by simp
next
  case (Suc k)
  then show ?case by (auto simp: wf_table_set2 get2_set2 less_Suc_eq)
qed

lemma dist_at_0 [simp]: "b \<le> length s2 \<Longrightarrow> dist_at s1 s2 0 b = b" "a \<le> length s1 \<Longrightarrow> dist_at s1 s2 a 0 = a"
  by (simp_all add: dist_at_def)

lemma dist_at_Suc:
  assumes "i < length s1" "j < length s2"
  shows "dist_at s1 s2 (Suc i) (Suc j) =
    (if s1 ! i = s2 ! j then dist_at s1 s2 i j
     else 1 + min (dist_at s1 s2 i (Suc j)) (min (dist_at s1 s2 (Suc i) j) (dist_at s1 s2 i j)))"
  using assms
  by (cases "s1 ! i = s2 ! j")
     (simp_all add: dist_at_def take_Suc_conv_app_nth lev_diff_head del: lev.simps(3))

lemma cell_correct:
  assumes "filled s1 s2 dp i j" "0 < i" "i \<le> length s1" "0 < j" "j \<le> length s2"
  shows "cell s1 s2 dp i j = dist_at s1 s2 i j"
proof -
  obtain i' j' where ij: "i = Suc i'" "j = Suc j'"
    using assms(2,4) by (cases i; cases j) auto
  have a: "get2 dp i' j' = dist_at s1 s2 i' j'" "get2 dp i' j = dist_at s1 s2 i' j"
    "get2 dp i j' = dist_at s1 s2 i j'"
    using assms ij by (auto simp: filled_def)
  show ?thesis
    using assms(3,5) a unfolding cell_def ij by (simp add: dist_at_Suc)
qed

lemma filled_step:
  assumes "filled s1 s2 dp i j" "0 < i" "i \<le> length s1" "0 < j" "j \<le> length s2"
  shows "filled s1 s2 (set2 dp i j (cell s1 s2 dp i j)) i (Suc j)"
  using assms cell_correct [OF assms]
  by (auto simp: filled_def wf_table_set2 get2_set2 less_Suc_eq)

lemma filled_row_aux:
  assumes "filled s1 s2 dp i 1" "0 < i" "i \<le> length s1"
  shows "k \<le> length s2 \<Longrightarrow>
    filled s1 s2 (fold (\<lambda>j d. set2 d i j (cell s1 s2 d i j)) [1..<Suc k] dp) i (Suc k)"
proof (induction k)
  case 0
  then show ?case using assms by simp
next
  case (Suc k)
  then have "filled s1 s2 (fold (\<lambda>j d. set2 d i j (cell s1 s2 d i j)) [1..<Suc k] dp) i (Suc k)"
    by simp
  from filled_step [OF this assms(2,3)] Suc.prems show ?case by simp
qed

lemma filled_next_row: "filled s1 s2 dp i (Suc (length s2)) \<Longrightarrow> filled s1 s2 dp (Suc i) 1"
  unfolding filled_def by (metis le_imp_less_Suc less_Suc_eq less_one)

lemma filled_fill_row:
  assumes "filled s1 s2 dp i 1" "0 < i" "i \<le> length s1"
  shows "filled s1 s2 (fill_row s1 s2 i dp) (Suc i) 1"
proof -
  have "filled s1 s2 (fold (\<lambda>j d. set2 d i j (cell s1 s2 d i j)) [1..<Suc (length s2)] dp) i
     (Suc (length s2))"
    by (rule filled_row_aux [OF assms]) simp
  then show ?thesis
    unfolding fill_row_def Suc_eq_plus1 [symmetric] by (rule filled_next_row)
qed

lemma filled_rows:
  assumes "filled s1 s2 dp 1 1"
  shows "k \<le> length s1 \<Longrightarrow> filled s1 s2 (fold (fill_row s1 s2) [1..<Suc k] dp) (Suc k) 1"
proof (induction k)
  case 0
  then show ?case using assms by simp
next
  case (Suc k)
  then have "filled s1 s2 (fold (fill_row s1 s2) [1..<Suc k] dp) (Suc k) 1" by simp
  from filled_fill_row [OF this] Suc.prems show ?case by simp
qed

lemma getEditDistance_lev: "getEditDistance s1 s2 = lev s1 s2"
proof -
  let ?m = "length s1" and ?n = "length s2"
  let ?dp0 = "replicate (?m + 1) (replicate (?n + 1) (0::nat))"
  let ?dp1 = "fold (\<lambda>i d. set2 d i 0 i) [0..<?m + 1] ?dp0"
  let ?dp2 = "fold (\<lambda>j d. set2 d 0 j j) [0..<?n + 1] ?dp1"
  let ?dp3 = "fold (fill_row s1 s2) [1..<?m + 1] ?dp2"
  have 1: "wf_table ?m ?n ?dp1 \<and> (\<forall>a. a < Suc ?m \<longrightarrow> get2 ?dp1 a 0 = a)"
    using init_col [of "Suc ?m" ?m ?n ?dp0] wf_table_replicate [of ?m ?n] by simp
  have 2: "wf_table ?m ?n ?dp2 \<and> (\<forall>a. a \<le> ?m \<longrightarrow> get2 ?dp2 a 0 = a) \<and>
      (\<forall>b. b < Suc ?n \<longrightarrow> get2 ?dp2 0 b = b)"
    using init_row [of "Suc ?n" ?n ?m ?dp1] 1 by (simp add: less_Suc_eq_le)
  have "filled s1 s2 ?dp2 1 1"
    using 2 by (auto simp: filled_def less_Suc_eq_le)
  from filled_rows [OF this, of ?m] have "filled s1 s2 ?dp3 (Suc ?m) 1" by simp
  then have "get2 ?dp3 ?m ?n = dist_at s1 s2 ?m ?n" by (auto simp: filled_def)
  then show ?thesis by (simp add: getEditDistance_def Let_def dist_at_def lev_rev)
qed

text \<open>
  \<^bold>\<open>C8.\<close> For all strings, \<open>getEditDistance s1 s2\<close> is the Levenshtein distance: some
  sequence of that many single-character insertions, deletions and substitutions turns
  \<open>s1\<close> into \<open>s2\<close>, and no shorter sequence does; it is \<open>0\<close> exactly when the strings
  are equal; and it is symmetric.
\<close>

theorem getEditDistance_is_levenshtein:
  "edits (getEditDistance s1 s2) s1 s2 \<and>
   (\<forall>n. edits n s1 s2 \<longrightarrow> getEditDistance s1 s2 \<le> n) \<and>
   (getEditDistance s1 s2 = 0 \<longleftrightarrow> s1 = s2) \<and>
   getEditDistance s1 s2 = getEditDistance s2 s1"
proof (intro conjI allI impI)
  show "edits (getEditDistance s1 s2) s1 s2"
    unfolding getEditDistance_lev by (rule edits_lev)
  show "getEditDistance s1 s2 \<le> n" if "edits n s1 s2" for n
    unfolding getEditDistance_lev using that by (rule lev_le_edits)
  show "getEditDistance s1 s2 = 0 \<longleftrightarrow> s1 = s2"
    unfolding getEditDistance_lev by (rule lev_eq_0_iff)
  show "getEditDistance s1 s2 = getEditDistance s2 s1"
    unfolding getEditDistance_lev by (rule lev_sym)
qed

theorem getEditDistance_is_levenshtein_witness:
  "edits 1 ''ab'' ''b'' \<and> getEditDistance ''ab'' ''b'' \<le> 1 \<and>
   edits (getEditDistance ''ab'' ''b'') ''ab'' ''b'' \<and>
   getEditDistance ''ab'' ''b'' = getEditDistance ''b'' ''ab''"
proof -
  have "edit_step ''ab'' ''b''"
    using edit_step.del [of "[]" "CHR ''a''" "''b''"] by simp
  then have e: "edits 1 ''ab'' ''b''"
    using edits.step [OF _ edits.finished, of "''ab''" "''b''"] by simp
  with getEditDistance_is_levenshtein [of "''ab''" "''b''"] show ?thesis by blast
qed

section \<open>Node lookup\<close>

lemma firstFound_None: "firstFound get alts = None \<longleftrightarrow> (\<forall>alt \<in> set alts. get alt = None)"
  by (induction alts) (auto split: option.splits)

lemma resolveNode_miss:
  "allLookupsMiss repo ty \<Longrightarrow> resolveNode repo ty = Inl (Error (''Node '' @ ty @ '' not found''))"
proof -
  assume a: "allLookupsMiss repo ty"
  then have "firstFound (getNode repo) (getNodeTypeAlternatives repo (normalizeToFullForm repo ty)) = None"
    by (simp add: allLookupsMiss_def firstFound_None list_all_iff)
  with a show ?thesis by (simp add: allLookupsMiss_def resolveNode_def Let_def)
qed

lemma resolveNode_hit:
  "\<not> allLookupsMiss repo ty \<Longrightarrow> \<exists>n. resolveNode repo ty = Inr n"
proof -
  assume a: "\<not> allLookupsMiss repo ty"
  let ?alts = "getNodeTypeAlternatives repo (normalizeToFullForm repo ty)"
  show ?thesis
  proof (cases "firstFound (getNode repo) ?alts")
    case None
    with a have "getNode repo (normalizeToFullForm repo ty) \<noteq> None \<or> getNode repo ty \<noteq> None"
      by (simp add: allLookupsMiss_def firstFound_None list_all_iff)
    with None show ?thesis by (auto simp: resolveNode_def Let_def)
  next
    case (Some found)
    then show ?thesis by (auto simp: resolveNode_def Let_def)
  qed
qed

lemma demo_resolve: "resolveNode demoRepository ''nodes-base.demo'' = Inr demoNode"
  by (simp add: resolveNode_def demoRepository_def)

text \<open>
  \<^bold>\<open>C9.\<close> When the repository returns nothing for the normalized identifier, the
  original identifier and every alternative, each of the four lookup-based operations
  (validate configuration, validate minimal, search node properties, get node
  information) throws \<^verbatim>\<open>Node <type> not found\<close> with the identifier as the caller gave
  it; when some lookup succeeds, each of them returns a result. The collaborators the
  operations call after the lookup are total functions here.
\<close>

theorem lookup_miss_errors:
  "(allLookupsMiss repo ty \<longrightarrow>
      validateNodeConfig repo sv ty config mode profile = Inl (notFound ty)
    \<and> validateNodeMinimal repo (isPropertyVisible sv) ty config = Inl (notFound ty)
    \<and> searchNodeProperties repo sv ty query maxResults = Inl (notFound ty)
    \<and> getNodeInfo repo sv ty = Inl (notFound ty))
   \<and> (\<not> allLookupsMiss repo ty \<longrightarrow>
      (\<exists>r. validateNodeConfig repo sv ty config mode profile = Inr r)
    \<and> (\<exists>r. validateNodeMinimal repo (isPropertyVisible sv) ty config = Inr r)
    \<and> (\<exists>r. searchNodeProperties repo sv ty query maxResults = Inr r)
    \<and> (\<exists>r. getNodeInfo repo sv ty = Inr r))"
proof (intro conjI impI)
  assume "allLookupsMiss repo ty"
  then have miss: "resolveNode repo ty = Inl (notFound ty)"
    unfolding notFound_def by (rule resolveNode_miss)
  show "validateNodeConfig repo sv ty config mode profile = Inl (notFound ty)"
    by (simp add: validateNodeConfig_def miss)
  show "validateNodeMinimal repo (isPropertyVisible sv) ty config = Inl (notFound ty)"
    by (simp add: validateNodeMinimal_def miss)
  show "searchNodeProperties repo sv ty query maxResults = Inl (notFound ty)"
    by (simp add: searchNodeProperties_def miss)
  show "getNodeInfo repo sv ty = Inl (notFound ty)"
    by (simp add: getNodeInfo_def miss)
next
  assume "\<not> allLookupsMiss repo ty"
  then obtain n where hit: "resolveNode repo ty = Inr n"
    using resolveNode_hit by blast
  show "\<exists>r. validateNodeConfig repo sv ty config mode profile = Inr r"
    by (simp add: validateNodeConfig_def hit Let_def)
  show "\<exists>r. validateNodeMinimal repo (isPropertyVisible sv) ty config = Inr r"
    by (simp add: validateNodeMinimal_def hit Let_def)
  show "\<exists>r. searchNodeProperties repo sv ty query maxResults = Inr r"
    by (simp add: searchNodeProperties_def hit Let_def)
  show "\<exists>r. getNodeInfo repo sv ty = Inr r"
    by (simp add: getNodeInfo_def hit Let_def)
qed

theorem lookup_miss_errors_witness:
  "allLookupsMiss demoRepository ''nodes-base.absent'' \<and>
   getNodeInfo demoRepository demoServices ''nodes-base.absent''
     = Inl (Error ''Node nodes-base.absent not found'') \<and>
   validateNodeMinimal demoRepository (isPropertyVisible demoServices) ''nodes-base.absent'' None
     = Inl (Error ''Node nodes-base.absent not found'') \<and>
   \<not> allLookupsMiss demoRepository ''nodes-base.demo'' \<and>
   (\<exists>r. getNodeInfo demoRepository demoServices ''nodes-base.demo'' = Inr r) \<and>
   (\<exists>r. searchNodeProperties demoRepository demoServices ''nodes-base.demo'' ''url'' 20 = Inr r)"
proof -
  have a: "allLookupsMiss demoRepository ''nodes-base.absent''"
    by (simp add: allLookupsMiss_def demoRepository_def)
  have b: "\<not> allLookupsMiss demoRepository ''nodes-base.demo''"
    by (simp add: allLookupsMiss_def demoRepository_def)
  from a lookup_miss_errors [of demoRepository "''nodes-base.absent''" demoServices None "''full''" "''strict''" "''url''" 20]
    b lookup_miss_errors [of demoRepository "''nodes-base.demo''" demoServices None "''full''" "''strict''" "''url''" 20]
  show ?thesis by (simp add: notFound_def)
qed

section \<open>Minimal validation\<close>

lemma missingFields_filter:
  "missingFields vis cwv (Some config) props =
     map fieldLabel
       (filter (\<lambda>p. prop_required p = Some True \<and> (prop_displayOptions p = None \<or> vis p cwv)
                     \<and> \<not> js_in_config (prop_name p) config) props)"
  by (induction props) auto

lemma missingFields_own_keys:
  assumes "\<forall>p \<in> set props. prop_name p \<notin> set objectPrototypeKeys"
  shows "missingFields vis cwv (Some config) props =
     map fieldLabel
       (filter (\<lambda>p. prop_required p = Some True \<and> (prop_displayOptions p = None \<or> vis p cwv)
                     \<and> prop_name p \<notin> dom config) props)"
  unfolding missingFields_filter
  by (rule arg_cong [where f = "map fieldLabel"], rule filter_cong [OF refl])
     (use assms in \<open>auto simp: js_in_config_def dom_def\<close>)

text \<open>A required property that bears the name of an inherited member is never reported,
  since \<^verbatim>\<open>'toString' in {}\<close> holds. The statement below leaves such names aside.\<close>

lemma validateNodeMinimal_inherited_name:
  "validateNodeMinimal inheritedNameRepository vis ''nodes-base.inherited'' (Some Map.empty)
     = Inr \<lparr> mr_nodeType = ''nodes-base.inherited'', mr_displayName = ''Inherited'',
             mr_valid = True, missingRequiredFields = [] \<rparr>"
  by (simp add: validateNodeMinimal_def resolveNode_def inheritedNameRepository_def
        inheritedNameNode_def Let_def js_in_config_def objectPrototypeKeys_def)

lemma configWithVersion_explicit:
  "configWithVersion n (Some config) =
     (\<lambda>k. if k = ''@version'' \<and> config ''@version'' = None
           then Some (js_or (version n) (JNum 1)) else config k)"
  by (auto simp: configWithVersion_def map_add_def fun_eq_iff split: option.splits)

text \<open>
  \<^bold>\<open>C1 (as stated).\<close> The claim evaluates visibility on the configuration with
  \<^verbatim>\<open>@version\<close> set to the node's version. The code spreads the configuration over the
  default, so a configuration that carries its own \<^verbatim>\<open>@version\<close> keeps it: for a node
  of version 2 whose required property \<open>Method\<close> is shown for version 2, and the
  configuration \<^verbatim>\<open>{"@version": 1}\<close>, the code reports nothing, while the claim's
  description yields the entry \<open>Method\<close>.
\<close>

theorem validateNodeMinimal_version_counterexample:
  "validateNodeMinimal demoRepository specIsPropertyVisible ''nodes-base.demo''
       (Some [''@version'' \<mapsto> JNum 1])
     = Inr \<lparr> mr_nodeType = ''nodes-base.demo'', mr_displayName = ''Demo'', mr_valid = True,
             missingRequiredFields = [] \<rparr>
   \<and> map fieldLabel
       (filter (\<lambda>p. prop_required p = Some True
                  \<and> (prop_displayOptions p = None
                      \<or> specIsPropertyVisible p
                           ([''@version'' \<mapsto> JNum 1](''@version'' \<mapsto> js_or (version demoNode) (JNum 1))))
                  \<and> prop_name p \<notin> dom [''@version'' \<mapsto> JNum 1])
               (case properties demoNode of None \<Rightarrow> [] | Some ps \<Rightarrow> ps))
     = [''Method'']"
  by (simp add: validateNodeMinimal_def demo_resolve Let_def demoNode_def demoProperty_def
        configWithVersion_def specIsPropertyVisible_def conditionHolds_def js_or_def fieldLabel_def)

text \<open>
  \<^bold>\<open>C1 (amended).\<close> For a resolved node none of whose properties bears the name of a
  member inherited from \<^verbatim>\<open>Object.prototype\<close>, and every plain object \<open>config\<close>, minimal
  validation reports, in the order of the property list, exactly the properties that
  are required, visible under the working configuration (no \<open>displayOptions\<close>, or the
  visibility evaluator accepts the property), and whose name is not a key of \<open>config\<close>;
  each entry is the property's display name, or its name when the display name is
  missing or empty. The working configuration is \<open>config\<close> with the key \<^verbatim>\<open>@version\<close>
  added only when \<open>config\<close> has no such key, set to the node's version or to 1 when the
  version is missing or falsy. The statement holds for every visibility evaluator.
\<close>

theorem validateNodeMinimal_reports:
  assumes "resolveNode repo ty = Inr n"
    and "\<forall>p \<in> set (case properties n of None \<Rightarrow> [] | Some ps \<Rightarrow> ps).
           prop_name p \<notin> set objectPrototypeKeys"
  shows "\<exists>r. validateNodeMinimal repo vis ty (Some config) = Inr r \<and>
     missingRequiredFields r =
       map fieldLabel
         (filter (\<lambda>p. prop_required p = Some True
                    \<and> (prop_displayOptions p = None
                        \<or> vis p (\<lambda>k. if k = ''@version'' \<and> config ''@version'' = None
                                       then Some (js_or (version n) (JNum 1)) else config k))
                    \<and> prop_name p \<notin> dom config)
                 (case properties n of None \<Rightarrow> [] | Some ps \<Rightarrow> ps))"
  using assms
  by (simp add: validateNodeMinimal_def Let_def missingFields_own_keys configWithVersion_explicit)

lemma demo_names:
  "\<forall>p \<in> set (case properties demoNode of None \<Rightarrow> [] | Some ps \<Rightarrow> ps).
     prop_name p \<notin> set objectPrototypeKeys"
  by (simp add: demoNode_def demoProperty_def objectPrototypeKeys_def)

theorem validateNodeMinimal_reports_witness:
  "resolveNode demoRepository ''nodes-base.demo'' = Inr demoNode \<and>
   map prop_name (case properties demoNode of None \<Rightarrow> [] | Some ps \<Rightarrow> ps) = [''method''] \<and>
   ''method'' \<notin> set objectPrototypeKeys \<and>
   validateNodeMinimal demoRepository specIsPropertyVisible ''nodes-base.demo'' (Some Map.empty)
     = Inr \<lparr> mr_nodeType = ''nodes-base.demo'', mr_displayName = ''Demo'', mr_valid = False,
             missingRequiredFields = [''Method''] \<rparr>"
proof -
  have v: "validateNodeMinimal demoRepository specIsPropertyVisible ''nodes-base.demo'' (Some Map.empty)
     = Inr \<lparr> mr_nodeType = ''nodes-base.demo'', mr_displayName = ''Demo'', mr_valid = False,
             missingRequiredFields = [''Method''] \<rparr>"
    by (simp add: validateNodeMinimal_def demo_resolve Let_def demoNode_def demoProperty_def
          configWithVersion_def specIsPropertyVisible_def conditionHolds_def js_or_def
          fieldLabel_def js_in_config_def objectPrototypeKeys_def)
  have n: "map prop_name (case properties demoNode of None \<Rightarrow> [] | Some ps \<Rightarrow> ps) = [''method'']"
    "''method'' \<notin> set objectPrototypeKeys"
    by (simp_all add: demoNode_def demoProperty_def objectPrototypeKeys_def)
  from validateNodeMinimal_reports [OF demo_resolve demo_names, of specIsPropertyVisible Map.empty]
    v demo_resolve n
  show ?thesis by simp
qed

section \<open>The validity flag\<close>









section \<open>The dispatcher on a configuration that is not an object\<close>

text \<open>
  \<^bold>\<open>C10 (as stated).\<close> The claim includes the configuration \<^verbatim>\<open>null\<close>. The dispatcher
  checks the required parameters first, and that check throws for a parameter that is
  \<^verbatim>\<open>null\<close>: the structured result is never reached.
\<close>

theorem validate_node_null_config_counterexample:
  "executeTool demoEnv ''validate_node''
     (Some (JObj [(''nodeType'', JStr ''nodes-base.demo''), (''config'', JNull)]))
   = Inl (Error (''Missing required parameter '' @ [squote] @ ''config'' @ [squote] @
                 '' for tool '' @ [squote] @ ''validate_node'' @ [squote]))"
  by (simp add: executeTool_def demoEnv_def validateToolParams_def js_typeof_def js_in_def js_get_def)

text \<open>
  \<^bold>\<open>C10 (amended).\<close> For every \<^verbatim>\<open>validate_node\<close> call whose arguments carry a
  \<^verbatim>\<open>nodeType\<close> other than \<^verbatim>\<open>null\<close> and a \<^verbatim>\<open>config\<close> that is a string, a number or
  a boolean, and whose parameter callback (if any) accepts the call, the dispatcher
  returns a structured result with \<open>valid = false\<close>: in minimal mode the object with
  \<open>missingRequiredFields\<close>, otherwise the object with exactly one error, of type
  \<open>config\<close>, and no warnings. The result does not depend on the validation handlers, and
  nothing is thrown.
\<close>

theorem validate_node_non_object_config:
  assumes "map_of kvs ''nodeType'' = Some nt" and "nt \<noteq> JNull"
    and "map_of kvs ''config'' = Some cfg" and "js_typeof (Some cfg) \<noteq> ''object''"
    and "case validateToolParamsCallback env of
           None \<Rightarrow> True
         | Some cb \<Rightarrow> cb ''validate_node'' (JObj kvs) [''nodeType'', ''config''] = None"
  shows "executeTool env ''validate_node'' (Some (JObj kvs)) =
           Inr (if js_or (map_of kvs ''mode'') (JStr ''full'') = JStr ''minimal''
                then InvalidMinimal (invalidMinimal (JObj kvs))
                else InvalidConfig (invalidConfig (JObj kvs)))
         \<and> im_valid (invalidMinimal (JObj kvs)) = False
         \<and> ic_valid (invalidConfig (JObj kvs)) = False
         \<and> map vf_type (ic_errors (invalidConfig (JObj kvs))) = [''config'']
         \<and> ic_warnings (invalidConfig (JObj kvs)) = []"
proof -
  have cfg: "cfg \<noteq> JNull" using assms(4) by (auto simp: js_typeof_def)
  have params: "validateToolParams env ''validate_node'' (JObj kvs) [''nodeType'', ''config''] = None"
    using assms(1,2,3,5) cfg
    by (auto simp: validateToolParams_def js_in_def js_get_def split: option.splits)
  show ?thesis
    using assms(3,4) params
    by (simp add: executeTool_def js_typeof_def js_get_def invalidMinimal_def invalidConfig_def)
qed

theorem validate_node_non_object_config_witness:
  "executeTool demoEnv ''validate_node''
     (Some (JObj [(''nodeType'', JStr ''nodes-base.demo''), (''config'', JStr ''url=x''),
                  (''mode'', JStr ''minimal'')]))
   = Inr (InvalidMinimal (invalidMinimal
        (JObj [(''nodeType'', JStr ''nodes-base.demo''), (''config'', JStr ''url=x''),
               (''mode'', JStr ''minimal'')])))
   \<and> executeTool demoEnv ''validate_node''
     (Some (JObj [(''nodeType'', JStr ''nodes-base.demo''), (''config'', JNum 3)]))
   = Inr (InvalidConfig (invalidConfig
        (JObj [(''nodeType'', JStr ''nodes-base.demo''), (''config'', JNum 3)])))"
  using validate_node_non_object_config
          [of "[(''nodeType'', JStr ''nodes-base.demo''), (''config'', JStr ''url=x''),
                (''mode'', JStr ''minimal'')]" "JStr ''nodes-base.demo''" "JStr ''url=x''" demoEnv]
        validate_node_non_object_config
          [of "[(''nodeType'', JStr ''nodes-base.demo''), (''config'', JNum 3)]"
              "JStr ''nodes-base.demo''" "JNum 3" demoEnv]
  by (simp add: js_typeof_def demoEnv_def js_or_def)

section \<open>Sorting and slicing\<close>

lemma set_insert_by [simp]: "set (insert_by cmp x ys) = insert x (set ys)"
  by (induction ys) auto

lemma length_insert_by [simp]: "length (insert_by cmp x ys) = Suc (length ys)"
  by (induction ys) auto

lemma set_js_sort [simp]: "set (js_sort cmp xs) = set xs"
  by (induction xs) (simp_all add: js_sort_def)

lemma length_js_sort [simp]: "length (js_sort cmp xs) = length xs"
  by (induction xs) (simp_all add: js_sort_def)



lemma set_slice0: "set (slice0 xs n) \<subseteq> set xs"
  by (auto simp: slice0_def dest: in_set_takeD)

lemma length_slice0: "0 \<le> n \<Longrightarrow> length (slice0 xs n) \<le> nat n"
  by (simp add: slice0_def)

lemma slice0_all: "int (length xs) \<le> n \<Longrightarrow> slice0 xs n = xs"
  by (simp add: slice0_def)

lemma sorted_wrt_slice0: "sorted_wrt P xs \<Longrightarrow> sorted_wrt P (slice0 xs n)"
  by (simp add: slice0_def sorted_wrt_take)

section \<open>The empty query\<close>

lemma lower_char_ws: "is_ws c \<Longrightarrow> lower_char c = c"
  by (auto simp: is_ws_def lower_char_def)

lemma toLowerCase_ws: "list_all is_ws q \<Longrightarrow> toLowerCase q = q"
  by (induction q) (simp_all add: toLowerCase_def lower_char_ws)

lemma trim_ws: "list_all is_ws q \<Longrightarrow> trim q = []"
proof -
  assume "list_all is_ws q"
  then have "dropWhile is_ws q = []" by (induction q) simp_all
  then show ?thesis by (simp only: trim_def rev.simps dropWhile.simps)
qed

lemma js_words_ws: "list_all is_ws q \<Longrightarrow> js_words q = []"
proof (cases q)
  case Nil
  have "js_split_ws [] = [[]]"
    by (subst js_split_ws.simps) simp
  with Nil show ?thesis by (simp add: js_words_def)
next
  case (Cons c cs)
  assume a: "list_all is_ws q"
  with Cons have d: "dropWhile (\<lambda>c. \<not> is_ws c) q = q" "takeWhile (\<lambda>c. \<not> is_ws c) q = []"
    by simp_all
  from a have e: "dropWhile is_ws q = []" by (induction q) simp_all
  have n: "js_split_ws [] = [[]]"
    by (subst js_split_ws.simps) simp
  have "js_split_ws q = [[], []]"
    by (subst js_split_ws.simps, simp only: d e n, simp add: Cons)
  then show ?thesis by (simp add: js_words_def)
qed

lemma startsWith_set: "startsWith s p \<Longrightarrow> set p \<subseteq> set s"
  by (induction s p rule: startsWith.induct) auto

lemma js_includes_set: "js_includes s p \<Longrightarrow> set p \<subseteq> set s"
proof (induction s)
  case Nil
  then show ?case by simp
next
  case (Cons c s)
  from Cons.prems have "startsWith (c # s) p \<or> js_includes s p" by simp
  then show ?case
  proof
    assume "startsWith (c # s) p"
    then show ?thesis by (rule startsWith_set)
  next
    assume "js_includes s p"
    with Cons.IH show ?thesis by auto
  qed
qed

lemma ws_not_includes:
  assumes "list_all is_ws q" "c \<in> set p" "\<not> is_ws c"
  shows "\<not> js_includes q p"
  using assms js_includes_set [of q p] by (auto simp: list_all_iff)

lemma ws_not_quoted: "list_all is_ws q \<Longrightarrow> \<not> startsWith q [dquote]"
  by (cases q) (auto simp: dquote_def is_ws_def)

lemma searchNodesLIKE_ws:
  assumes "list_all is_ws q"
  shows "searchNodesLIKE env q limit options =
     Inr \<lparr> sr_query = q, results = [], totalCount = 0, sr_mode = None \<rparr>"
  using assms
  by (simp add: searchNodesLIKE_def ws_not_quoted toLowerCase_ws js_words_ws)

lemma searchNodesFTS_ws:
  assumes "list_all is_ws q"
  shows "searchNodesFTS env q limit mode options =
     Inr \<lparr> sr_query = q, results = [], totalCount = 0, sr_mode = None \<rparr>"
  using assms by (simp add: searchNodesFTS_def trim_ws)

text \<open>
  \<^bold>\<open>C4 (as stated).\<close> The class \<^verbatim>\<open>NodeSearchHandler\<close> guards its entry point: an
  empty query is answered with the exception \<^verbatim>\<open>Search query is required\<close>.
\<close>

theorem empty_query_handler_counterexample:
  "NodeSearchHandler_searchNodes demoSearchEnv '''' 20 None = Inl (Error ''Search query is required'')"
  by (simp add: NodeSearchHandler_searchNodes_def trim_def)

text \<open>
  \<^bold>\<open>C4 (amended).\<close> For every limit, options and store, \<^verbatim>\<open>searchNodes\<close> of
  \<^verbatim>\<open>search-handlers.ts\<close> answers a query that is empty or consists of whitespace only
  with an empty result list and \<open>totalCount = 0\<close>, and throws nothing;
  \<^verbatim>\<open>NodeSearchHandler.searchNodes\<close> answers the same query with the exception
  \<^verbatim>\<open>Search query is required\<close>.
\<close>

theorem empty_query:
  "list_all is_ws query \<longrightarrow>
     searchNodes env query limit options
       = Inr \<lparr> sr_query = query, results = [], totalCount = 0, sr_mode = None \<rparr>
   \<and> NodeSearchHandler_searchNodes env query limit options = Inl (Error ''Search query is required'')"
proof (intro impI conjI)
  assume a: "list_all is_ws query"
  have 1: "\<not> js_includes query ''n8n-nodes-base.''"
    by (rule ws_not_includes [OF a, of "CHR ''n''"]) (simp_all add: is_ws_def)
  have 2: "\<not> js_includes query ''@n8n/n8n-nodes-langchain.''"
    by (rule ws_not_includes [OF a, of "CHR ''n''"]) (simp_all add: is_ws_def)
  show "searchNodes env query limit options
       = Inr \<lparr> sr_query = query, results = [], totalCount = 0, sr_mode = None \<rparr>"
    using 1 2 by (simp add: searchNodes_def searchNodesLIKE_ws [OF a] searchNodesFTS_ws [OF a])
  show "NodeSearchHandler_searchNodes env query limit options = Inl (Error ''Search query is required'')"
    by (simp add: NodeSearchHandler_searchNodes_def trim_ws [OF a])
qed

theorem empty_query_witness:
  "list_all is_ws ''  '' \<and>
   searchNodes demoSearchEnv ''  '' 20 None
     = Inr \<lparr> sr_query = ''  '', results = [], totalCount = 0, sr_mode = None \<rparr>"
proof -
  have "list_all is_ws ''  ''" by (simp add: is_ws_def)
  with empty_query [of "''  ''" demoSearchEnv 20 None] show ?thesis by simp
qed

section \<open>The index query\<close>

text \<open>
  \<^bold>\<open>C6 (as stated).\<close> \<^verbatim>\<open>searchNodesFTS\<close> of \<^verbatim>\<open>search-handlers.ts\<close> joins the terms
  as they are: the query \<open>slack\<close> becomes the index query \<open>slack\<close>, where the claim
  has \<open>slack*\<close>. (The class appends the wildcard but splits a quoted query like any
  other, see \<open>handler_index_query_quoted\<close>.)
\<close>

theorem index_query_counterexample:
  "buildFtsQuery ''OR'' ''slack'' = ''slack'' \<and> spec_index_query ''OR'' ''slack'' = ''slack*''"
  by code_simp

theorem handler_index_query_quoted:
  "handlerFtsQuery ''OR'' ([dquote] @ ''http request'' @ [dquote])
     = [dquote] @ ''http* OR request'' @ [dquote] @ ''*''"
  by code_simp

text \<open>
  \<^bold>\<open>C6 (amended).\<close> In \<^verbatim>\<open>search-handlers.ts\<close> a trimmed query wrapped in double
  quotes is the index query as it stands, and any other query is split on whitespace
  into its non-empty terms, joined by \<open>AND\<close> in mode AND and by \<open>OR\<close> otherwise, with no
  wildcard. In \<^verbatim>\<open>NodeSearchHandler\<close> the query is split on whitespace, every piece
  gets the prefix wildcard \<open>*\<close>, and the pieces are joined by the operator of the mode;
  this is the index query of the specification for every query that is not quoted and
  yields no empty piece. Quoted queries get no special treatment there.
\<close>

theorem index_query:
  "(quoted (trim query) \<longrightarrow> buildFtsQuery mode (trim query) = trim query)
   \<and> (\<not> quoted (trim query) \<longrightarrow>
        buildFtsQuery mode (trim query)
          = join (if mode = ''AND'' then '' AND '' else '' OR '') (js_words (trim query)))
   \<and> handlerFtsQuery mode query
        = join (if mode = ''AND'' then '' AND '' else '' OR '')
            (map (\<lambda>term. term @ ''*'') (js_split_ws query))
   \<and> (\<not> quoted query \<and> [] \<notin> set (js_split_ws query) \<longrightarrow>
        handlerFtsQuery mode query = spec_index_query mode query)"
proof (intro conjI impI)
  assume "quoted (trim query)"
  then show "buildFtsQuery mode (trim query) = trim query"
    by (simp add: buildFtsQuery_def quoted_def)
next
  assume "\<not> quoted (trim query)"
  then show "buildFtsQuery mode (trim query)
          = join (if mode = ''AND'' then '' AND '' else '' OR '') (js_words (trim query))"
    by (auto simp: buildFtsQuery_def quoted_def)
next
  show "handlerFtsQuery mode query
        = join (if mode = ''AND'' then '' AND '' else '' OR '')
            (map (\<lambda>term. term @ ''*'') (js_split_ws query))"
    by (simp add: handlerFtsQuery_def)
next
  assume a: "\<not> quoted query \<and> [] \<notin> set (js_split_ws query)"
  then have "filter (\<lambda>w. w \<noteq> []) (js_split_ws query) = js_split_ws query"
    by (auto simp: filter_id_conv)
  with a show "handlerFtsQuery mode query = spec_index_query mode query"
    by (auto simp: handlerFtsQuery_def spec_index_query_def quoted_def js_words_def)
qed

theorem index_query_witness:
  "\<not> quoted (trim '' http  request '') \<and>
   buildFtsQuery ''AND'' (trim '' http  request '') = ''http AND request'' \<and>
   \<not> quoted ''http request'' \<and> [] \<notin> set (js_split_ws ''http request'') \<and>
   handlerFtsQuery ''OR'' ''http request'' = ''http* OR request*''"
proof -
  have 1: "\<not> quoted (trim '' http  request '')" by code_simp
  have 2: "\<not> quoted ''http request'' \<and> [] \<notin> set (js_split_ws ''http request'')" by code_simp
  have 3: "join '' AND '' (js_words (trim '' http  request '')) = ''http AND request''" by code_simp
  have 4: "spec_index_query ''OR'' ''http request'' = ''http* OR request*''" by code_simp
  from index_query [of "'' http  request ''" "''AND''"] 1
  have a: "buildFtsQuery ''AND'' (trim '' http  request '')
      = join '' AND '' (js_words (trim '' http  request ''))"
    by simp
  from index_query [of "''http request''" "''OR''"] 2
  have b: "handlerFtsQuery ''OR'' ''http request'' = spec_index_query ''OR'' ''http request''"
    by blast
  from 1 2 show ?thesis by (simp only: a b 3 4 simp_thms)
qed

section \<open>The guard for the HTTP request node\<close>

text \<open>In \<^verbatim>\<open>search-handlers.ts\<close> the guard hands the query itself to the substring
  strategy: when the query contains \<open>http\<close> and the scored rows of the index lack the
  HTTP request node, the answer is that of \<^verbatim>\<open>searchNodesLIKE\<close> on the same query.\<close>

lemma list_ex_js_sort [simp]: "list_ex P (js_sort cmp xs) = list_ex P xs"
  by (simp add: list_ex_iff)

lemma searchNodesFTS_http_guard:
  assumes "trim query \<noteq> []" and "mode \<noteq> ''FUZZY''"
    and "ftsSelect env (buildFtsQuery mode (trim query)) (trim query) (sourceFilterOf ''n.'' options) limit
           = Inr nodes"
    and "mapM (\<lambda>node. map_sum id (Pair node) (calculateRelevanceScore env (fst node) (trim query))) nodes
           = Inr scored"
    and "js_includes (toLowerCase (trim query)) ''http''"
    and "\<not> list_ex (\<lambda>sn. node_type (fst (fst sn)) = ''nodes-base.httpRequest'') scored"
  shows "searchNodesFTS env query limit mode options = searchNodesLIKE env query limit options"
  using assms by (simp add: searchNodesFTS_def Let_def)

lemma searchNodesFTS_http_guard_demo:
  "searchNodes demoSearchEnv ''http'' 20 None = searchNodesLIKE demoSearchEnv ''http'' 20 None \<and>
   map nr_nodeType (results (projr (searchNodes demoSearchEnv ''http'' 20 None)))
     = [''nodes-base.httpRequest'']"
  by code_simp

text \<open>
  \<^bold>\<open>C5 (evaluation at the failing input).\<close> In \<^verbatim>\<open>NodeSearchHandler.searchNodesFTS\<close>
  the guard calls the substring strategy with the local variable \<open>query\<close>, which holds
  the index query. For the query \<open>http\<close> and an index that misses the HTTP request
  node, the substring strategy is run on \<open>http*\<close> and finds nothing, although it finds
  the node for \<open>http\<close>.
\<close>

theorem handler_http_guard_wrong_query:
  "NodeSearchHandler_searchNodes demoSearchEnv ''http'' 20 None
     = Inr \<lparr> hq_query = ''http*'', hq_results = [], hq_totalCount = 0, hq_mode = None,
             hq_fallback = Some True \<rparr>
   \<and> hq_results (NodeSearchHandler_searchNodesLIKE demoSearchEnv ''http'' 20)
     = [handlerResult demoSearchEnv ''http'' httpRow]"
  by code_simp

section \<open>The fuzzy strategy\<close>

subsection \<open>The mode tag\<close>

lemma searchNodesLIKE_mode:
  "searchNodesLIKE env q limit options = Inr r \<Longrightarrow> sr_mode r = None"
  by (auto simp: searchNodesLIKE_def Let_def likeResponse_def split: if_splits sum.splits)

lemma searchNodesFuzzy_mode: "sr_mode (searchNodesFuzzy env q limit) = Some ''FUZZY''"
  by (simp add: searchNodesFuzzy_def Let_def)

lemma searchNodesFTS_mode:
  assumes "searchNodesFTS env q limit mode options = Inr r" and "sr_mode r = Some ''FUZZY''"
  shows "mode = ''FUZZY''"
proof (rule ccontr)
  assume m: "mode \<noteq> ''FUZZY''"
  show False
  proof (cases "trim q = []")
    case True
    with assms show False by (auto simp: searchNodesFTS_def)
  next
    case False
    let ?sel = "case ftsSelect env (buildFtsQuery mode (trim q)) (trim q) (sourceFilterOf ''n.'' options) limit of
                  Inl e \<Rightarrow> Inl e
                | Inr nodes \<Rightarrow>
                    mapM (\<lambda>node. map_sum id (Pair node)
                                   (calculateRelevanceScore env (fst node) (trim q))) nodes"
    show False
    proof (cases ?sel)
      case (Inl e)
      obtain msg where e: "e = Error msg" by (cases e)
      from assms False m Inl e searchNodesLIKE_mode [of env q limit options] show False
        by (auto simp: searchNodesFTS_def Let_def ftsResponse_def split: if_splits sum.splits)
    next
      case (Inr scored)
      from assms False m Inr searchNodesLIKE_mode [of env q limit options r] show False
        by (auto simp: searchNodesFTS_def Let_def ftsResponse_def split: if_splits sum.splits)
    qed
  qed
qed

lemma searchNodes_mode:
  assumes "searchNodes env q limit options = Inr r" and "sr_mode r = Some ''FUZZY''"
  shows "\<exists>opts. options = Some opts \<and> opt_mode opts = Some ''FUZZY''"
proof (cases "ftsExists env")
  case False
  with assms searchNodesLIKE_mode show ?thesis
    by (auto simp: searchNodes_def Let_def split: if_splits)
next
  case True
  let ?m = "case options of None \<Rightarrow> ''OR''
            | Some opts \<Rightarrow> (case opt_mode opts of None \<Rightarrow> ''OR'' | Some m \<Rightarrow> if m = [] then ''OR'' else m)"
  from assms True obtain q' where "searchNodesFTS env q' limit ?m options = Inr r"
    by (auto simp: searchNodes_def Let_def split: if_splits)
  from searchNodesFTS_mode [OF this assms(2)] show ?thesis
    by (auto split: option.splits if_splits)
qed

subsection \<open>The candidate pool is read by the fuzzy strategy alone\<close>

lemma baseResult_pool [simp]: "baseResult (env\<lparr>allNodes := pool\<rparr>) = baseResult env"
  by (simp add: fun_eq_iff baseResult_def)

lemma parseExamples_pool [simp]:
  "parseExamples (env\<lparr>allNodes := pool\<rparr>) exs = parseExamples env exs"
  by (induction exs) (simp_all split: option.splits)

lemma examplesFor_pool [simp]: "examplesFor (env\<lparr>allNodes := pool\<rparr>) = examplesFor env"
  by (simp add: fun_eq_iff examplesFor_def)

lemma addExamplesEach_pool [simp]:
  "addExamplesEach (env\<lparr>allNodes := pool\<rparr>) = addExamplesEach env"
  by (simp add: fun_eq_iff addExamplesEach_def)

lemma addExamplesUntilThrow_pool [simp]:
  "addExamplesUntilThrow (env\<lparr>allNodes := pool\<rparr>) rs = addExamplesUntilThrow env rs"
  by (induction rs) (simp_all split: option.splits)

lemma likeResponse_pool [simp]: "likeResponse (env\<lparr>allNodes := pool\<rparr>) = likeResponse env"
  by (simp add: fun_eq_iff likeResponse_def Let_def)

lemma ftsResponse_pool [simp]: "ftsResponse (env\<lparr>allNodes := pool\<rparr>) = ftsResponse env"
  by (simp add: fun_eq_iff ftsResponse_def Let_def)

lemma genericScore_pool [simp]: "genericScore (env\<lparr>allNodes := pool\<rparr>) = genericScore env"
  by (simp add: fun_eq_iff genericScore_def wordRegexTest_def split: sum.splits bool.splits)

lemma calculateRelevanceScore_pool [simp]:
  "calculateRelevanceScore (env\<lparr>allNodes := pool\<rparr>) = calculateRelevanceScore env"
  by (simp add: fun_eq_iff calculateRelevanceScore_def Let_def)

lemma likeScore_pool [simp]: "likeScore (env\<lparr>allNodes := pool\<rparr>) = likeScore env"
  by (simp add: fun_eq_iff likeScore_def likeBaseScore_def Let_def)

lemma likeCompare_pool [simp]: "likeCompare (env\<lparr>allNodes := pool\<rparr>) = likeCompare env"
  by (simp add: fun_eq_iff likeCompare_def)

lemma rankSearchResults_pool [simp]:
  "rankSearchResults (env\<lparr>allNodes := pool\<rparr>) = rankSearchResults env"
  by (simp add: fun_eq_iff rankSearchResults_def cong: sum.case_cong)

lemma searchNodesLIKE_pool:
  "searchNodesLIKE (env\<lparr>allNodes := pool\<rparr>) q limit options = searchNodesLIKE env q limit options"
  by (simp add: searchNodesLIKE_def Let_def cong: sum.case_cong)

lemma searchNodesFTS_pool:
  "mode \<noteq> ''FUZZY'' \<Longrightarrow>
   searchNodesFTS (env\<lparr>allNodes := pool\<rparr>) q limit mode options = searchNodesFTS env q limit mode options"
  by (simp add: searchNodesFTS_def searchNodesLIKE_pool Let_def cong: sum.case_cong error.case_cong if_cong)

lemma searchNodes_pool:
  assumes "\<not> (\<exists>opts. options = Some opts \<and> opt_mode opts = Some ''FUZZY'')"
  shows "searchNodes (env\<lparr>allNodes := pool\<rparr>) q limit options = searchNodes env q limit options"
proof -
  let ?m = "case options of None \<Rightarrow> ''OR''
            | Some opts \<Rightarrow> (case opt_mode opts of None \<Rightarrow> ''OR'' | Some m \<Rightarrow> if m = [] then ''OR'' else m)"
  from assms have "?m \<noteq> ''FUZZY''" by (auto split: option.splits)
  then show ?thesis
    by (simp add: searchNodes_def Let_def searchNodesFTS_pool searchNodesLIKE_pool)
qed

lemma searchNodesFTS_fuzzy:
  "trim q \<noteq> [] \<Longrightarrow> searchNodesFTS env q limit ''FUZZY'' options = Inr (searchNodesFuzzy env (trim q) limit)"
  by (simp add: searchNodesFTS_def)

subsection \<open>The ranking of the fuzzy strategy\<close>

lemma insert_by_insort_key:
  "insert_by (\<lambda>a b. snd b - snd a) x ys = insort_key (\<lambda>p. - snd p) x (ys :: ('a \<times> rat) list)"
  by (induction ys) simp_all

lemma js_sort_sort_key:
  "js_sort (\<lambda>a b. snd b - snd a) xs = sort_key (\<lambda>p. - snd p) (xs :: ('a \<times> rat) list)"
  by (induction xs) (simp_all add: js_sort_def sort_key_def insert_by_insort_key)

lemma insort_key_map_pair:
  "insort_key (\<lambda>p. - snd p) (n, g n) (map (\<lambda>n. (n, g n)) ys)
     = map (\<lambda>n. (n, g n)) (insort_key (\<lambda>n. - g n) n (ys :: 'a list))"
  for g :: "'a \<Rightarrow> rat"
  by (induction ys) simp_all

lemma sort_key_map_pair:
  "sort_key (\<lambda>p. - snd p) (map (\<lambda>n. (n, g n)) xs) = map (\<lambda>n. (n, g n)) (sort_key (\<lambda>n. - g n) xs)"
  for g :: "'a \<Rightarrow> rat"
  by (induction xs) (simp_all add: sort_key_def insort_key_map_pair)

lemma fuzzy_pipeline:
  "map fst (js_sort (\<lambda>a b. snd b - snd a)
              (filter (\<lambda>item. snd item \<ge> fl) (map (\<lambda>n. (n, g n)) pool)))
     = sort_key (\<lambda>n. - g n) (filter (\<lambda>n. fl \<le> g n) pool)"
  for g :: "'a \<Rightarrow> rat"
proof -
  have "filter (\<lambda>item. snd item \<ge> fl) (map (\<lambda>n. (n, g n)) pool)
      = map (\<lambda>n. (n, g n)) (filter (\<lambda>n. fl \<le> g n) pool)"
    by (simp add: filter_map comp_def)
  then show ?thesis
    by (simp add: js_sort_sort_key sort_key_map_pair comp_def)
qed

lemma slice0_take: "0 \<le> n \<Longrightarrow> slice0 xs n = take (nat n) xs"
  by (simp add: slice0_def)

lemma fuzzy_results:
  assumes "js_words (toLowerCase query) \<noteq> []" and "0 \<le> limit"
  shows "results (searchNodesFuzzy env query limit)
           = map (baseResult env) (take (nat limit) (fuzzyRanking (allNodes env) query))"
    and "totalCount (searchNodesFuzzy env query limit) = length (results (searchNodesFuzzy env query limit))"
proof -
  have m: "map fst (slice0 (js_sort (\<lambda>a b. snd b - snd a)
                     (filter (\<lambda>item. snd item \<ge> fuzzyFloor)
                        (map (\<lambda>n. (n, calculateFuzzyScore n query)) (allNodes env)))) limit)
      = take (nat limit) (fuzzyRanking (allNodes env) query)"
    by (simp only: slice0_take [OF assms(2)] take_map [symmetric] fuzzy_pipeline fuzzyRanking_def)
  from assms(1) have r: "results (searchNodesFuzzy env query limit)
      = map (baseResult env) (map fst (slice0 (js_sort (\<lambda>a b. snd b - snd a)
                     (filter (\<lambda>item. snd item \<ge> fuzzyFloor)
                        (map (\<lambda>n. (n, calculateFuzzyScore n query)) (allNodes env)))) limit))"
    and t: "totalCount (searchNodesFuzzy env query limit)
      = length (map fst (slice0 (js_sort (\<lambda>a b. snd b - snd a)
                     (filter (\<lambda>item. snd item \<ge> fuzzyFloor)
                        (map (\<lambda>n. (n, calculateFuzzyScore n query)) (allNodes env)))) limit))"
    by (simp_all add: searchNodesFuzzy_def Let_def)
  show "results (searchNodesFuzzy env query limit)
           = map (baseResult env) (take (nat limit) (fuzzyRanking (allNodes env) query))"
    unfolding r m ..
  show "totalCount (searchNodesFuzzy env query limit) = length (results (searchNodesFuzzy env query limit))"
    unfolding r t by simp
qed

lemma fuzzy_results_empty:
  "js_words (toLowerCase query) = [] \<Longrightarrow>
   results (searchNodesFuzzy env query limit) = [] \<and> totalCount (searchNodesFuzzy env query limit) = 0"
  by (simp add: searchNodesFuzzy_def Let_def)

lemma set_fuzzyRanking:
  "c \<in> set (fuzzyRanking pool query) \<longleftrightarrow> c \<in> set pool \<and> fuzzyFloor \<le> calculateFuzzyScore c query"
  by (simp add: fuzzyRanking_def)

lemma sorted_fuzzyRanking:
  "sorted_wrt (\<lambda>a b. calculateFuzzyScore b query \<le> calculateFuzzyScore a query) (fuzzyRanking pool query)"
proof -
  have "sorted (map (\<lambda>c. - calculateFuzzyScore c query) (fuzzyRanking pool query))"
    unfolding fuzzyRanking_def by (rule sorted_sort_key)
  then show ?thesis
    by (simp add: sorted_wrt_map sorted_wrt_iff_nth_less nth_map)
qed


lemma lower_char_idem: "lower_char (lower_char c) = lower_char c"
  by (auto simp: lower_char_def)

lemma toLowerCase_idem: "toLowerCase (toLowerCase s) = toLowerCase s"
  by (simp add: toLowerCase_def lower_char_idem)

lemma toLowerCase_drop: "toLowerCase (drop k s) = drop k (toLowerCase s)"
  by (simp add: toLowerCase_def drop_map)

lemma toLowerCase_stripPrefix:
  "toLowerCase s = s \<Longrightarrow> toLowerCase (stripPrefix p s) = stripPrefix p s"
  by (simp add: stripPrefix_def toLowerCase_drop)

lemma typeWithoutPrefix_lower: "toLowerCase (typeWithoutPrefix ty) = typeWithoutPrefix ty"
  by (simp add: typeWithoutPrefix_def toLowerCase_stripPrefix toLowerCase_idem)

lemma fuzzy_exact:
  "toLowerCase (display_name n) = toLowerCase query \<or> typeWithoutPrefix (node_type n) = toLowerCase query
   \<Longrightarrow> calculateFuzzyScore n query = 1000"
  by (simp add: calculateFuzzyScore_def)

lemma score_bound:
  assumes "s \<le> (1::rat)"
  shows "(if A then 800 + s * 100
          else if B then 700 + s * 100
          else if d \<le> 2 then 500 + (2 - rat_of_nat d) * 100 + s * 50
          else if d \<le> 3 \<and> C then 400 + (3 - rat_of_nat d) * 50 + s * 50
          else s * 300) \<le> 1000"
proof -
  have "0 \<le> rat_of_nat d" by simp
  with assms show ?thesis by (auto simp: algebra_simps)
qed

lemma fuzzy_max: "calculateFuzzyScore n query \<le> 1000"
proof -
  have s: "1 - rat_of_nat d / rat_of_nat l \<le> 1" for d l
    by simp
  show ?thesis
  proof (cases "toLowerCase (display_name n) = toLowerCase query
                \<or> typeWithoutPrefix (node_type n) = toLowerCase query")
    case True
    then show ?thesis by (simp add: calculateFuzzyScore_def)
  next
    case False
    show ?thesis
      apply (simp only: calculateFuzzyScore_def Let_def False if_False)
      apply (rule score_bound)
      apply (rule s)
      done
  qed
qed

lemma fuzzy_exact_verbatim:
  "display_name n = query \<or> typeWithoutPrefix (node_type n) = query
   \<Longrightarrow> calculateFuzzyScore n query = 1000"
  using typeWithoutPrefix_lower [of "node_type n"] by (auto intro!: fuzzy_exact)

lemma demo_fuzzy_scores:
  "calculateFuzzyScore slackRow ''s'' = 820" "calculateFuzzyScore httpRow ''s'' = 800"
  by code_simp+

lemma demo_fuzzy_words: "js_words (toLowerCase ''s'') = [''s'']"
  by code_simp

lemma demo_fuzzy_query:
  "trim ''s'' = ''s''" "\<not> js_includes ''s'' ''n8n-nodes-base.''"
  "\<not> js_includes ''s'' ''@n8n/n8n-nodes-langchain.''"
  by code_simp+

lemma demo_fuzzy_sorted:
  "js_sort (\<lambda>a b. snd b - snd a)
     (filter (\<lambda>item. snd item \<ge> fuzzyFloor)
        (map (\<lambda>n. (n, calculateFuzzyScore n ''s'')) (allNodes demoSearchEnv)))
   = [(slackRow, 820), (httpRow, 800)]"
  by (simp add: demoSearchEnv_def demo_fuzzy_scores fuzzyFloor_def js_sort_def)

lemma demo_fuzzy_dispatch:
  "searchNodes demoSearchEnv ''s'' k (Some fuzzyOptions) = Inr (searchNodesFuzzy demoSearchEnv ''s'' k)"
proof -
  have "ftsExists demoSearchEnv" by (simp add: demoSearchEnv_def)
  then show ?thesis
    by (simp add: searchNodes_def searchNodesFTS_def Let_def fuzzyOptions_def demo_fuzzy_query)
qed

text \<open>
  \<^bold>\<open>C7 (as stated).\<close> The claim bounds the number of results by \<open>limit\<close> for every
  limit. The dispatcher hands \<^verbatim>\<open>Number(args.limit)\<close> on as it is, and
  \<^verbatim>\<open>slice(0, -1)\<close> drops the last candidate only: for the query \<open>s\<close> and the limit
  \<open>-1\<close> the fuzzy strategy returns one result. No list has at most \<open>-1\<close> elements.
\<close>

theorem fuzzy_limit_counterexample:
  "searchNodes demoSearchEnv ''s'' (- 1) (Some fuzzyOptions)
     = Inr (searchNodesFuzzy demoSearchEnv ''s'' (- 1))
   \<and> results (searchNodesFuzzy demoSearchEnv ''s'' (- 1)) = [baseResult demoSearchEnv slackRow]
   \<and> \<not> int (length (results (searchNodesFuzzy demoSearchEnv ''s'' (- 1)))) \<le> - 1"
proof -
  have r: "results (searchNodesFuzzy demoSearchEnv ''s'' (- 1)) = [baseResult demoSearchEnv slackRow]"
    by (simp only: searchNodesFuzzy_def Let_def demo_fuzzy_words demo_fuzzy_sorted)
       (simp add: slice0_def)
  show ?thesis
    unfolding r by (simp add: demo_fuzzy_dispatch)
qed

text \<open>
  \<^bold>\<open>C7 (amended).\<close> The fuzzy strategy runs only in mode \<open>FUZZY\<close>: \<^verbatim>\<open>searchNodes\<close>
  answers with a response of mode \<open>FUZZY\<close> only when the options ask for that mode; in
  every other mode the answers of \<^verbatim>\<open>searchNodes\<close>, of the indexed strategy and of the
  substring strategy do not depend on the candidate pool, which the fuzzy strategy alone
  reads; in mode \<open>FUZZY\<close> the indexed entry hands a query that is not blank to the fuzzy
  strategy. For every pool, every query with at least one word and every limit that is
  not negative, the results are the first \<open>limit\<close> candidates of the ranking, which
  holds exactly the candidates of the pool whose fuzzy score is at least the floor 200,
  by score descending (equal scores in the order of the pool), and \<open>totalCount\<close> is
  their number. A query without a word has no results. A candidate whose display name
  or node type without its package prefix equals the query scores 1000, and no score of
  a non-empty query exceeds 1000.
\<close>

theorem fuzzy_strategy:
  "(searchNodes env q k options = Inr r \<and> sr_mode r = Some ''FUZZY''
      \<longrightarrow> (\<exists>opts. options = Some opts \<and> opt_mode opts = Some ''FUZZY''))
   \<and> (\<not> (\<exists>opts. options = Some opts \<and> opt_mode opts = Some ''FUZZY'')
      \<longrightarrow> searchNodes (env\<lparr>allNodes := pool\<rparr>) q k options = searchNodes env q k options)
   \<and> (mode \<noteq> ''FUZZY''
      \<longrightarrow> searchNodesFTS (env\<lparr>allNodes := pool\<rparr>) q k mode options
           = searchNodesFTS env q k mode options)
   \<and> searchNodesLIKE (env\<lparr>allNodes := pool\<rparr>) q k options = searchNodesLIKE env q k options
   \<and> (trim q \<noteq> []
      \<longrightarrow> searchNodesFTS env q k ''FUZZY'' options = Inr (searchNodesFuzzy env (trim q) k))
   \<and> sr_mode (searchNodesFuzzy env query limit) = Some ''FUZZY''
   \<and> (js_words (toLowerCase query) \<noteq> [] \<and> 0 \<le> limit \<longrightarrow>
        results (searchNodesFuzzy env query limit)
          = map (baseResult env) (take (nat limit) (fuzzyRanking (allNodes env) query))
        \<and> totalCount (searchNodesFuzzy env query limit)
          = length (results (searchNodesFuzzy env query limit))
        \<and> int (length (results (searchNodesFuzzy env query limit))) \<le> limit)
   \<and> (js_words (toLowerCase query) = [] \<longrightarrow>
        results (searchNodesFuzzy env query limit) = []
        \<and> totalCount (searchNodesFuzzy env query limit) = 0)
   \<and> (c \<in> set (fuzzyRanking pool query)
        \<longleftrightarrow> c \<in> set pool \<and> fuzzyFloor \<le> calculateFuzzyScore c query)
   \<and> sorted_wrt (\<lambda>a b. calculateFuzzyScore b query \<le> calculateFuzzyScore a query)
        (fuzzyRanking pool query)
   \<and> (display_name n = query \<or> typeWithoutPrefix (node_type n) = query
        \<longrightarrow> calculateFuzzyScore n query = 1000)
   \<and> (query \<noteq> [] \<longrightarrow> calculateFuzzyScore n query \<le> 1000)"
proof -
  have 1: "searchNodes env q k options = Inr r \<and> sr_mode r = Some ''FUZZY''
      \<longrightarrow> (\<exists>opts. options = Some opts \<and> opt_mode opts = Some ''FUZZY'')"
    using searchNodes_mode by blast
  have 2: "\<not> (\<exists>opts. options = Some opts \<and> opt_mode opts = Some ''FUZZY'')
      \<longrightarrow> searchNodes (env\<lparr>allNodes := pool\<rparr>) q k options = searchNodes env q k options"
    using searchNodes_pool by blast
  have 3: "mode \<noteq> ''FUZZY''
      \<longrightarrow> searchNodesFTS (env\<lparr>allNodes := pool\<rparr>) q k mode options
           = searchNodesFTS env q k mode options"
    using searchNodesFTS_pool by blast
  have 4: "searchNodesLIKE (env\<lparr>allNodes := pool\<rparr>) q k options = searchNodesLIKE env q k options"
    by (rule searchNodesLIKE_pool)
  have 5: "trim q \<noteq> []
      \<longrightarrow> searchNodesFTS env q k ''FUZZY'' options = Inr (searchNodesFuzzy env (trim q) k)"
    using searchNodesFTS_fuzzy by blast
  have 6: "sr_mode (searchNodesFuzzy env query limit) = Some ''FUZZY''"
    by (rule searchNodesFuzzy_mode)
  have 7: "js_words (toLowerCase query) \<noteq> [] \<and> 0 \<le> limit \<longrightarrow>
        results (searchNodesFuzzy env query limit)
          = map (baseResult env) (take (nat limit) (fuzzyRanking (allNodes env) query))
        \<and> totalCount (searchNodesFuzzy env query limit)
          = length (results (searchNodesFuzzy env query limit))
        \<and> int (length (results (searchNodesFuzzy env query limit))) \<le> limit"
  proof (intro impI conjI)
    assume a: "js_words (toLowerCase query) \<noteq> [] \<and> 0 \<le> limit"
    then have w: "js_words (toLowerCase query) \<noteq> []" and l: "0 \<le> limit" by simp_all
    show r: "results (searchNodesFuzzy env query limit)
          = map (baseResult env) (take (nat limit) (fuzzyRanking (allNodes env) query))"
      by (rule fuzzy_results(1) [OF w l])
    show "totalCount (searchNodesFuzzy env query limit)
          = length (results (searchNodesFuzzy env query limit))"
      by (rule fuzzy_results(2) [OF w l])
    from l show "int (length (results (searchNodesFuzzy env query limit))) \<le> limit"
      unfolding r by simp
  qed
  have 8: "js_words (toLowerCase query) = [] \<longrightarrow>
        results (searchNodesFuzzy env query limit) = []
        \<and> totalCount (searchNodesFuzzy env query limit) = 0"
    using fuzzy_results_empty by blast
  have 9: "c \<in> set (fuzzyRanking pool query)
        \<longleftrightarrow> c \<in> set pool \<and> fuzzyFloor \<le> calculateFuzzyScore c query"
    by (rule set_fuzzyRanking)
  have 10: "sorted_wrt (\<lambda>a b. calculateFuzzyScore b query \<le> calculateFuzzyScore a query)
        (fuzzyRanking pool query)"
    by (rule sorted_fuzzyRanking)
  have 11: "display_name n = query \<or> typeWithoutPrefix (node_type n) = query
        \<longrightarrow> calculateFuzzyScore n query = 1000"
    using fuzzy_exact_verbatim by blast
  have 12: "query \<noteq> [] \<longrightarrow> calculateFuzzyScore n query \<le> 1000"
    using fuzzy_max by blast
  from 1 2 3 4 5 6 7 8 9 10 11 12 show ?thesis by (intro conjI)
qed

theorem fuzzy_strategy_witness:
  "searchNodes demoSearchEnv ''s'' 1 (Some fuzzyOptions) = Inr (searchNodesFuzzy demoSearchEnv ''s'' 1)
   \<and> sr_mode (searchNodesFuzzy demoSearchEnv ''s'' 1) = Some ''FUZZY''
   \<and> opt_mode fuzzyOptions = Some ''FUZZY''
   \<and> searchNodes (demoSearchEnv\<lparr>allNodes := []\<rparr>) ''http'' 20 None = searchNodes demoSearchEnv ''http'' 20 None
   \<and> searchNodesFTS (demoSearchEnv\<lparr>allNodes := []\<rparr>) ''http'' 20 ''OR'' None
       = searchNodesFTS demoSearchEnv ''http'' 20 ''OR'' None
   \<and> js_words (toLowerCase ''s'') \<noteq> []
   \<and> fuzzyRanking (allNodes demoSearchEnv) ''s'' = [slackRow, httpRow]
   \<and> calculateFuzzyScore slackRow ''s'' = 820
   \<and> calculateFuzzyScore httpRow ''s'' = 800
   \<and> results (searchNodesFuzzy demoSearchEnv ''s'' 10) = map (baseResult demoSearchEnv) [slackRow, httpRow]
   \<and> results (searchNodesFuzzy demoSearchEnv ''s'' 1) = [baseResult demoSearchEnv slackRow]
   \<and> totalCount (searchNodesFuzzy demoSearchEnv ''s'' 1) = 1
   \<and> display_name slackRow = ''Slack''
   \<and> calculateFuzzyScore slackRow ''Slack'' = 1000"
proof -
  have a: "searchNodes demoSearchEnv ''s'' 1 (Some fuzzyOptions) = Inr (searchNodesFuzzy demoSearchEnv ''s'' 1)"
    by (rule demo_fuzzy_dispatch)
  have o: "opt_mode fuzzyOptions = Some ''FUZZY''" by (simp add: fuzzyOptions_def)
  have w: "js_words (toLowerCase ''s'') \<noteq> []" by (simp add: demo_fuzzy_words)
  have rk: "fuzzyRanking (allNodes demoSearchEnv) ''s'' = [slackRow, httpRow]"
    by (simp add: fuzzyRanking_def demoSearchEnv_def demo_fuzzy_scores fuzzyFloor_def)
  note sc = demo_fuzzy_scores
  have d: "display_name slackRow = ''Slack''" by (simp add: slackRow_def)
  note th10 = fuzzy_strategy [where env = demoSearchEnv and query = "''s''" and limit = 10
      and q = "''http''" and k = 20 and options = None and pool = "[]" and mode = "''OR''"]
  note th1 = fuzzy_strategy [where env = demoSearchEnv and query = "''s''" and limit = 1]
  note thx = fuzzy_strategy [where query = "''Slack''" and n = slackRow]
  have m: "sr_mode (searchNodesFuzzy demoSearchEnv ''s'' 1) = Some ''FUZZY''"
    using th1 [THEN conjunct2, THEN conjunct2, THEN conjunct2, THEN conjunct2, THEN conjunct2, THEN conjunct1] by simp
  have p1: "searchNodes (demoSearchEnv\<lparr>allNodes := []\<rparr>) ''http'' 20 None = searchNodes demoSearchEnv ''http'' 20 None"
    using th10 [THEN conjunct2, THEN conjunct1] by simp
  have p2: "searchNodesFTS (demoSearchEnv\<lparr>allNodes := []\<rparr>) ''http'' 20 ''OR'' None
       = searchNodesFTS demoSearchEnv ''http'' 20 ''OR'' None"
    using th10 [THEN conjunct2, THEN conjunct2, THEN conjunct1] by simp
  have r10: "results (searchNodesFuzzy demoSearchEnv ''s'' 10) = map (baseResult demoSearchEnv) [slackRow, httpRow]"
    using th10 [THEN conjunct2, THEN conjunct2, THEN conjunct2, THEN conjunct2, THEN conjunct2, THEN conjunct2, THEN conjunct1] w rk by simp
  have r1: "results (searchNodesFuzzy demoSearchEnv ''s'' 1) = [baseResult demoSearchEnv slackRow]"
    "totalCount (searchNodesFuzzy demoSearchEnv ''s'' 1) = 1"
    using th1 [THEN conjunct2, THEN conjunct2, THEN conjunct2, THEN conjunct2, THEN conjunct2, THEN conjunct2, THEN conjunct1] w rk by simp_all
  have x: "calculateFuzzyScore slackRow ''Slack'' = 1000"
    using thx [THEN conjunct2, THEN conjunct2, THEN conjunct2, THEN conjunct2, THEN conjunct2, THEN conjunct2, THEN conjunct2, THEN conjunct2, THEN conjunct2, THEN conjunct2, THEN conjunct1] d by simp
  from a o w rk sc d m p1 p2 r10 r1 x show ?thesis by (simp only: simp_thms)
qed

section \<open>Relevance scoring\<close>



















text \<open>The query is spliced into the regular expression unescaped: for a query with
  syntax characters the scorer has whatever outcome the pattern has, and throws when the
  pattern is not well formed. The statements below leave such queries aside.\<close>

lemma scorer_throws_on_syntax:
  "\<not> plainPattern ''c++'' \<and>
   calculateRelevanceScore throwingEnv slackRow ''c++''
     = Inl (Error ''Invalid regular expression: Nothing to repeat'')"
  by code_simp










end
